theory Spec2Isabelle
  imports Complex_Main "HOL-Library.Sublist" "HOL-Library.Multiset"
begin

section \<open>The notebook examples/notebooks/Estimators.ipynb\<close>

text \<open>
  The notebook drives two external libraries (DeepChem and TensorFlow).  Its own code is
  the two adapter functions \<open>input_fn\<close> and \<open>mean_auc\<close> and the top-level statements
  of its cells.  The library functions are not part of the notebook, so they are
  parameters of the model: a record of functions, each returning either the exception the
  call raised (\<open>Inl\<close>) or its result (\<open>Inr\<close>).  Objects handed out by the libraries
  (datasets, iterators, tensors, operations, models, estimators) are opaque values of one
  type \<open>'v\<close>, as Python's are.
\<close>

subsection \<open>Interpreter state\<close>

datatype tensor_arg = Labels | Predictions | Weights

text \<open>One entry of the call log per library call the notebook's code makes.\<close>

datatype 'v call =
    Call_make_iterator
  | Call_get_next
  | Call_slice tensor_arg nat
  | Call_auc nat
  | Call_stack
  | Call_reduce_mean
  | Call_group
  | Call_load_tox21
  | Call_X_shape
  | Call_MultitaskClassifier
  | Call_fit
  | Call_Metric
  | Call_evaluate
  | Call_print
  | Call_numeric_column string
  | Call_make_estimator "'v list" 'v
  | Call_estimator_train
  | Call_estimator_evaluate

text \<open>
  The state the notebook's code runs in: the global variable \<open>n_tasks\<close> (the only
  global the adapter functions read), the store of Python list objects (a list object is
  its address, an index into \<open>store\<close>), the log of library calls made so far, what has
  been printed, and the state \<open>world\<close> of the libraries' own objects (a model's trained
  weights, an estimator's checkpoints).  Every other global variable lives in the
  record's extension.
\<close>

record ('v, 'w) pystate =
  n_tasks :: nat
  store :: "'v list list"
  calls :: "'v call list"
  stdout :: "'v list"
  world :: 'w

type_synonym ('a, 'e, 'v, 'w, 'z) py =
  "('v, 'w, 'z) pystate_scheme \<Rightarrow> ('e + 'a) \<times> ('v, 'w, 'z) pystate_scheme"

definition py_ret :: "'a \<Rightarrow> ('a, 'e, 'v, 'w, 'z) py" where
  "py_ret x = (\<lambda>s. (Inr x, s))"

text \<open>Sequencing: an exception ends the computation and is handed on as it is.\<close>

definition py_bind :: "('a, 'e, 'v, 'w, 'z) py \<Rightarrow> ('a \<Rightarrow> ('b, 'e, 'v, 'w, 'z) py) \<Rightarrow> ('b, 'e, 'v, 'w, 'z) py" where
  "py_bind m f = (\<lambda>s. case m s of (Inl e, s') \<Rightarrow> (Inl e, s') | (Inr x, s') \<Rightarrow> f x s')"

text \<open>A call of a library function that builds a value from its arguments.\<close>

definition lib_call :: "'v call \<Rightarrow> 'e + 'a \<Rightarrow> ('a, 'e, 'v, 'w, 'z) py" where
  "lib_call c r = (\<lambda>s. (r, s\<lparr>calls := calls s @ [c]\<rparr>))"

text \<open>A call of a library function that works on the libraries' own objects.\<close>

definition world_call :: "'v call \<Rightarrow> ('w \<Rightarrow> ('e + 'a) \<times> 'w) \<Rightarrow> ('a, 'e, 'v, 'w, 'z) py" where
  "world_call c f = (\<lambda>s. case f (world s) of (r, w') \<Rightarrow> (r, s\<lparr>calls := calls s @ [c], world := w'\<rparr>))"

text \<open>\<open>[]\<close>: a new, empty list object.\<close>

definition new_list :: "(nat, 'e, 'v, 'w, 'z) py" where
  "new_list = (\<lambda>s. (Inr (length (store s)), s\<lparr>store := store s @ [[]]\<rparr>))"

text \<open>\<open>xs.append(x)\<close> on the list object at address \<open>a\<close>.\<close>

definition list_append :: "nat \<Rightarrow> 'v \<Rightarrow> (unit, 'e, 'v, 'w, 'z) py" where
  "list_append a x = (\<lambda>s. (Inr (), s\<lparr>store := (store s)[a := store s ! a @ [x]]\<rparr>))"

definition list_read :: "nat \<Rightarrow> ('v list, 'e, 'v, 'w, 'z) py" where
  "list_read a = (\<lambda>s. (Inr (if a < length (store s) then store s ! a else []), s))"

definition read_n_tasks :: "(nat, 'e, 'v, 'w, 'z) py" where
  "read_n_tasks = (\<lambda>s. (Inr (n_tasks s), s))"

definition py_print :: "'v \<Rightarrow> (unit, 'e, 'v, 'w, 'z) py" where
  "py_print x = (\<lambda>s. (Inr (), s\<lparr>calls := calls s @ [Call_print], stdout := stdout s @ [x]\<rparr>))"

text \<open>\<open>for x in xs: body(x)\<close>\<close>

primrec for_in :: "'a list \<Rightarrow> ('a \<Rightarrow> (unit, 'e, 'v, 'w, 'z) py) \<Rightarrow> (unit, 'e, 'v, 'w, 'z) py" where
  "for_in [] body = py_ret ()"
| "for_in (x # xs) body = py_bind (body x) (\<lambda>_. for_in xs body)"

subsection \<open>The library functions the notebook calls\<close>

text \<open>
  A function passed to a library is passed as a closure value: the lambda
  \<open>lambda: input_fn(dataset, epochs)\<close> with its two captured values, or the function
  \<open>mean_auc\<close>.
\<close>

datatype 'v closure = Lambda_input_fn 'v int | Fn_mean_auc

record ('v, 'w, 'e) libs =
  make_iterator :: "'v \<Rightarrow> int \<Rightarrow> int \<Rightarrow> 'e + 'v"
  get_next :: "'v \<Rightarrow> 'e + ('v \<times> 'v \<times> 'v)"
  getcol :: "'v \<Rightarrow> nat \<Rightarrow> 'e + 'v"
  metrics_auc :: "'v \<Rightarrow> 'v \<Rightarrow> 'v \<Rightarrow> 'e + ('v \<times> 'v)"
  tf_stack :: "'v list \<Rightarrow> 'e + 'v"
  reduce_mean :: "'v \<Rightarrow> 'e + 'v"
  tf_group :: "'v list \<Rightarrow> 'e + 'v"
  numeric_column :: "string \<Rightarrow> nat list \<Rightarrow> 'e + 'v"
  load_tox21 :: "'w \<Rightarrow> ('e + (string list \<times> ('v \<times> 'v \<times> 'v) \<times> 'v)) \<times> 'w"
  X_shape_1 :: "'v \<Rightarrow> 'w \<Rightarrow> ('e + nat) \<times> 'w"
  MultitaskClassifier :: "nat \<Rightarrow> nat \<Rightarrow> nat list \<Rightarrow> rat \<Rightarrow> 'w \<Rightarrow> ('e + 'v) \<times> 'w"
  model_fit :: "'v \<Rightarrow> 'v \<Rightarrow> int \<Rightarrow> 'w \<Rightarrow> ('e + 'v) \<times> 'w"
  roc_auc_score :: 'v
  np_mean :: 'v
  Metric :: "'v \<Rightarrow> 'v \<Rightarrow> 'w \<Rightarrow> ('e + 'v) \<times> 'w"
  model_evaluate :: "'v \<Rightarrow> 'v \<Rightarrow> 'v list \<Rightarrow> 'w \<Rightarrow> ('e + 'v) \<times> 'w"
  make_estimator :: "'v \<Rightarrow> 'v list \<Rightarrow> 'v \<Rightarrow> (string \<times> 'v closure) list \<Rightarrow> string \<Rightarrow> 'w \<Rightarrow> ('e + 'v) \<times> 'w"
  estimator_train :: "'v \<Rightarrow> 'v closure \<Rightarrow> 'w \<Rightarrow> ('e + 'v) \<times> 'w"
  estimator_evaluate :: "'v \<Rightarrow> 'v closure \<Rightarrow> 'w \<Rightarrow> ('e + 'v) \<times> 'w"

subsection \<open>Cell 3: the input function\<close>

text \<open>
  \<^verbatim>\<open>
  def input_fn(dataset, epochs):
      x, y, weights = dataset.make_iterator(batch_size=100, epochs=epochs).get_next()
      return {'x': x, 'weights': weights}, y
  \<close>
  The iterator DeepChem builds has three components, so \<open>get_next\<close> returns a triple.
\<close>

definition input_fn :: "('v, 'w, 'e) libs \<Rightarrow> 'v \<Rightarrow> int \<Rightarrow> ((string \<rightharpoonup> 'v) \<times> 'v, 'e, 'v, 'w, 'z) py" where
  "input_fn L dataset epochs =
     py_bind (lib_call Call_make_iterator (make_iterator L dataset 100 epochs)) (\<lambda>iterator.
     py_bind (lib_call Call_get_next (get_next L iterator)) (\<lambda>(x, y, weights).
     py_ret ([''x'' \<mapsto> x, ''weights'' \<mapsto> weights], y)))"

subsection \<open>Cell 5: the metric function\<close>

text \<open>
  \<^verbatim>\<open>
  def mean_auc(labels, predictions, weights):
      metric_ops = []
      update_ops = []
      for i in range(n_tasks):
          metric, update = tf.metrics.auc(labels[:,i], predictions[:,i], weights[:,i])
          metric_ops.append(metric)
          update_ops.append(update)
      mean_metric = tf.reduce_mean(tf.stack(metric_ops))
      update_all = tf.group(*update_ops)
      return mean_metric, update_all
  \<close>
  \<open>getcol L t i\<close> is the slice \<open>t[:,i]\<close>.  The body of the loop, for task \<open>i\<close>:
\<close>

definition auc_task :: "('v, 'w, 'e) libs \<Rightarrow> 'v \<Rightarrow> 'v \<Rightarrow> 'v \<Rightarrow> nat \<Rightarrow> nat \<Rightarrow> nat \<Rightarrow> (unit, 'e, 'v, 'w, 'z) py" where
  "auc_task L labels predictions weights metric_ops update_ops i =
     py_bind (lib_call (Call_slice Labels i) (getcol L labels i)) (\<lambda>l.
     py_bind (lib_call (Call_slice Predictions i) (getcol L predictions i)) (\<lambda>p.
     py_bind (lib_call (Call_slice Weights i) (getcol L weights i)) (\<lambda>w.
     py_bind (lib_call (Call_auc i) (metrics_auc L l p w)) (\<lambda>(metric, update).
     py_bind (list_append metric_ops metric) (\<lambda>_.
     list_append update_ops update)))))"

definition mean_auc :: "('v, 'w, 'e) libs \<Rightarrow> 'v \<Rightarrow> 'v \<Rightarrow> 'v \<Rightarrow> ('v \<times> 'v, 'e, 'v, 'w, 'z) py" where
  "mean_auc L labels predictions weights =
     py_bind new_list (\<lambda>metric_ops.
     py_bind new_list (\<lambda>update_ops.
     py_bind read_n_tasks (\<lambda>n.
     py_bind (for_in [0..<n] (auc_task L labels predictions weights metric_ops update_ops)) (\<lambda>_.
     py_bind (list_read metric_ops) (\<lambda>ms.
     py_bind (lib_call Call_stack (tf_stack L ms)) (\<lambda>stacked.
     py_bind (lib_call Call_reduce_mean (reduce_mean L stacked)) (\<lambda>mean_metric.
     py_bind (list_read update_ops) (\<lambda>us.
     py_bind (lib_call Call_group (tf_group L us)) (\<lambda>update_all.
     py_ret (mean_metric, update_all))))))))))"

subsection \<open>The cells' top-level statements\<close>

text \<open>
  Cell 1:
  \<^verbatim>\<open>
  tasks, datasets, transformers = dc.molnet.load_tox21()
  train_dataset, valid_dataset, test_dataset = datasets
  n_tasks = len(tasks)
  n_features = train_dataset.X.shape[1]
  model = dc.models.MultitaskClassifier(n_tasks, n_features, layer_sizes=[1000], dropouts=0.25)
  \<close>
  Of the variables the cells assign, \<open>n_tasks\<close> is kept in the state, where
  \<open>mean_auc\<close> reads it; the others are assigned once and are bound variables here.
\<close>

definition set_n_tasks :: "nat \<Rightarrow> (unit, 'e, 'v, 'w, 'z) py" where
  "set_n_tasks n = (\<lambda>s. (Inr (), s\<lparr>n_tasks := n\<rparr>))"

definition cell1 :: "('v, 'w, 'e) libs \<Rightarrow> ('v \<times> 'v \<times> nat \<times> 'v, 'e, 'v, 'w, 'z) py" where
  "cell1 L =
     py_bind (world_call Call_load_tox21 (load_tox21 L)) (\<lambda>(tasks, datasets, transformers).
     case datasets of (train_dataset, valid_dataset, test_dataset) \<Rightarrow>
     py_bind (set_n_tasks (length tasks)) (\<lambda>_.
     py_bind (world_call Call_X_shape (X_shape_1 L train_dataset)) (\<lambda>n_features.
     py_bind read_n_tasks (\<lambda>n.
     py_bind (world_call Call_MultitaskClassifier (MultitaskClassifier L n n_features [1000] (1/4))) (\<lambda>model.
     py_ret (train_dataset, test_dataset, n_features, model))))))"

text \<open>
  Cell 2:
  \<^verbatim>\<open>
  model.fit(train_dataset, nb_epoch=100)
  metric = dc.metrics.Metric(dc.metrics.roc_auc_score, np.mean)
  print(model.evaluate(test_dataset, [metric]))
  \<close>
\<close>

definition cell2 :: "('v, 'w, 'e) libs \<Rightarrow> 'v \<Rightarrow> 'v \<Rightarrow> 'v \<Rightarrow> (unit, 'e, 'v, 'w, 'z) py" where
  "cell2 L model train_dataset test_dataset =
     py_bind (world_call Call_fit (model_fit L model train_dataset 100)) (\<lambda>_.
     py_bind (world_call Call_Metric (Metric L (roc_auc_score L) (np_mean L))) (\<lambda>metric.
     py_bind (world_call Call_evaluate (model_evaluate L model test_dataset [metric])) (\<lambda>scores.
     py_print scores)))"

text \<open>
  Cell 4:
  \<^verbatim>\<open>
  x_col = tf.feature_column.numeric_column('x', shape=(n_features,))
  weight_col = tf.feature_column.numeric_column('weights', shape=(n_tasks,))
  \<close>
\<close>

definition cell4 :: "('v, 'w, 'e) libs \<Rightarrow> nat \<Rightarrow> ('v \<times> 'v, 'e, 'v, 'w, 'z) py" where
  "cell4 L n_features =
     py_bind (lib_call (Call_numeric_column ''x'') (numeric_column L ''x'' [n_features])) (\<lambda>x_col.
     py_bind read_n_tasks (\<lambda>n.
     py_bind (lib_call (Call_numeric_column ''weights'') (numeric_column L ''weights'' [n])) (\<lambda>weight_col.
     py_ret (x_col, weight_col))))"

text \<open>
  Cell 6:
  \<^verbatim>\<open>
  estimator = model.make_estimator(feature_columns=[x_col],
                                   weight_column=weight_col,
                                   metrics={'mean_auc': mean_auc},
                                   model_dir='estimator')
  \<close>
\<close>

definition cell6 :: "('v, 'w, 'e) libs \<Rightarrow> 'v \<Rightarrow> 'v \<Rightarrow> 'v \<Rightarrow> ('v, 'e, 'v, 'w, 'z) py" where
  "cell6 L model x_col weight_col =
     world_call (Call_make_estimator [x_col] weight_col)
       (make_estimator L model [x_col] weight_col [(''mean_auc'', Fn_mean_auc)] ''estimator'')"

text \<open>
  Cell 7:
  \<^verbatim>\<open>
  estimator.train(input_fn=lambda: input_fn(train_dataset, 100))
  print(estimator.evaluate(input_fn=lambda: input_fn(test_dataset, 1)))
  \<close>
\<close>

definition cell7 :: "('v, 'w, 'e) libs \<Rightarrow> 'v \<Rightarrow> 'v \<Rightarrow> 'v \<Rightarrow> (unit, 'e, 'v, 'w, 'z) py" where
  "cell7 L estimator train_dataset test_dataset =
     py_bind (world_call Call_estimator_train (estimator_train L estimator (Lambda_input_fn train_dataset 100))) (\<lambda>_.
     py_bind (world_call Call_estimator_evaluate (estimator_evaluate L estimator (Lambda_input_fn test_dataset 1))) (\<lambda>results.
     py_print results))"

text \<open>The cells in the order of their execution counts; cells 3 and 5 only define functions.\<close>

definition notebook :: "('v, 'w, 'e) libs \<Rightarrow> (unit, 'e, 'v, 'w, 'z) py" where
  "notebook L =
     py_bind (cell1 L) (\<lambda>(train_dataset, test_dataset, n_features, model).
     py_bind (cell2 L model train_dataset test_dataset) (\<lambda>_.
     py_bind (cell4 L n_features) (\<lambda>(x_col, weight_col).
     py_bind (cell6 L model x_col weight_col) (\<lambda>estimator.
     cell7 L estimator train_dataset test_dataset))))"

subsection \<open>What a run of \<open>mean_auc\<close> computes and calls\<close>

text \<open>
  The library calls of the loop body for task \<open>i\<close>, in the order Python evaluates them
  (the three slices, then \<open>tf.metrics.auc\<close>): their outcome, the calls the body is
  written to make, and the calls it does make (it stops at the first that raises).
\<close>

definition task_auc :: "('v, 'w, 'e) libs \<Rightarrow> 'v \<Rightarrow> 'v \<Rightarrow> 'v \<Rightarrow> nat \<Rightarrow> 'e + ('v \<times> 'v)" where
  "task_auc L labels predictions weights i =
     (case getcol L labels i of Inl e \<Rightarrow> Inl e | Inr l \<Rightarrow>
      (case getcol L predictions i of Inl e \<Rightarrow> Inl e | Inr p \<Rightarrow>
       (case getcol L weights i of Inl e \<Rightarrow> Inl e | Inr w \<Rightarrow> metrics_auc L l p w)))"

definition task_ops :: "nat \<Rightarrow> 'v call list" where
  "task_ops i = [Call_slice Labels i, Call_slice Predictions i, Call_slice Weights i, Call_auc i]"

definition task_calls :: "('v, 'w, 'e) libs \<Rightarrow> 'v \<Rightarrow> 'v \<Rightarrow> 'v \<Rightarrow> nat \<Rightarrow> 'v call list" where
  "task_calls L labels predictions weights i =
     (case getcol L labels i of Inl e \<Rightarrow> take 1 (task_ops i) | Inr l \<Rightarrow>
      (case getcol L predictions i of Inl e \<Rightarrow> take 2 (task_ops i) | Inr p \<Rightarrow>
       (case getcol L weights i of Inl e \<Rightarrow> take 3 (task_ops i) | Inr w \<Rightarrow> task_ops i)))"

text \<open>The two \<open>append\<close>s of the loop body, on the list objects at \<open>a\<close> and \<open>b\<close>.\<close>

definition appended :: "nat \<Rightarrow> nat \<Rightarrow> 'v \<times> 'v \<Rightarrow> 'v list list \<Rightarrow> 'v list list" where
  "appended a b r st =
     (case r of (m, u) \<Rightarrow> (st[a := st ! a @ [m]])[b := st[a := st ! a @ [m]] ! b @ [u]])"

text \<open>The loop over a list of tasks: outcome, calls made, and store.\<close>

primrec tasks_auc :: "('v, 'w, 'e) libs \<Rightarrow> 'v \<Rightarrow> 'v \<Rightarrow> 'v \<Rightarrow> nat list \<Rightarrow> 'e + ('v \<times> 'v) list" where
  "tasks_auc L labels predictions weights [] = Inr []"
| "tasks_auc L labels predictions weights (i # is) =
     (case task_auc L labels predictions weights i of Inl e \<Rightarrow> Inl e | Inr r \<Rightarrow>
      (case tasks_auc L labels predictions weights is of Inl e \<Rightarrow> Inl e | Inr rs \<Rightarrow> Inr (r # rs)))"

primrec tasks_calls :: "('v, 'w, 'e) libs \<Rightarrow> 'v \<Rightarrow> 'v \<Rightarrow> 'v \<Rightarrow> nat list \<Rightarrow> 'v call list" where
  "tasks_calls L labels predictions weights [] = []"
| "tasks_calls L labels predictions weights (i # is) =
     task_calls L labels predictions weights i @
     (case task_auc L labels predictions weights i of Inl e \<Rightarrow> []
      | Inr r \<Rightarrow> tasks_calls L labels predictions weights is)"

primrec tasks_store :: "('v, 'w, 'e) libs \<Rightarrow> 'v \<Rightarrow> 'v \<Rightarrow> 'v \<Rightarrow> nat \<Rightarrow> nat \<Rightarrow> nat list \<Rightarrow> 'v list list \<Rightarrow> 'v list list" where
  "tasks_store L labels predictions weights a b [] st = st"
| "tasks_store L labels predictions weights a b (i # is) st =
     (case task_auc L labels predictions weights i of Inl e \<Rightarrow> st
      | Inr r \<Rightarrow> tasks_store L labels predictions weights a b is (appended a b r st))"

text \<open>The three library calls after the loop, on the collected (metric, update) pairs.\<close>

definition finish :: "('v, 'w, 'e) libs \<Rightarrow> ('v \<times> 'v) list \<Rightarrow> 'e + ('v \<times> 'v)" where
  "finish L rs =
     (case tf_stack L (map fst rs) of Inl e \<Rightarrow> Inl e | Inr stacked \<Rightarrow>
      (case reduce_mean L stacked of Inl e \<Rightarrow> Inl e | Inr mean_metric \<Rightarrow>
       (case tf_group L (map snd rs) of Inl e \<Rightarrow> Inl e
        | Inr update_all \<Rightarrow> Inr (mean_metric, update_all))))"

definition finish_ops :: "'v call list" where
  "finish_ops = [Call_stack, Call_reduce_mean, Call_group]"

definition finish_calls :: "('v, 'w, 'e) libs \<Rightarrow> ('v \<times> 'v) list \<Rightarrow> 'v call list" where
  "finish_calls L rs =
     (case tf_stack L (map fst rs) of Inl e \<Rightarrow> take 1 finish_ops | Inr stacked \<Rightarrow>
      (case reduce_mean L stacked of Inl e \<Rightarrow> take 2 finish_ops | Inr mean_metric \<Rightarrow> finish_ops))"

definition mean_auc_result :: "('v, 'w, 'e) libs \<Rightarrow> 'v \<Rightarrow> 'v \<Rightarrow> 'v \<Rightarrow> nat \<Rightarrow> 'e + ('v \<times> 'v)" where
  "mean_auc_result L labels predictions weights n =
     (case tasks_auc L labels predictions weights [0..<n] of Inl e \<Rightarrow> Inl e | Inr rs \<Rightarrow> finish L rs)"

definition mean_auc_calls :: "('v, 'w, 'e) libs \<Rightarrow> 'v \<Rightarrow> 'v \<Rightarrow> 'v \<Rightarrow> nat \<Rightarrow> 'v call list" where
  "mean_auc_calls L labels predictions weights n =
     tasks_calls L labels predictions weights [0..<n] @
     (case tasks_auc L labels predictions weights [0..<n] of Inl e \<Rightarrow> [] | Inr rs \<Rightarrow> finish_calls L rs)"

text \<open>
  The sequences of library calls the two functions are written to make: they are fixed by
  the code and, for \<open>mean_auc\<close>, by the value of \<open>n_tasks\<close>.
\<close>

definition input_fn_ops :: "'v call list" where
  "input_fn_ops = [Call_make_iterator, Call_get_next]"

definition mean_auc_ops :: "nat \<Rightarrow> 'v call list" where
  "mean_auc_ops n = concat (map task_ops [0..<n]) @ finish_ops"

text \<open>The calls a run has added to the log.\<close>

definition new_calls :: "('v, 'w, 'z) pystate_scheme \<Rightarrow> ('v, 'w, 'z) pystate_scheme \<Rightarrow> 'v call list" where
  "new_calls s s' = drop (length (calls s)) (calls s')"

text \<open>The calls the notebook's cells are written to make, in the order of the cells.\<close>

definition notebook_ops :: "'v \<Rightarrow> 'v \<Rightarrow> 'v call list" where
  "notebook_ops x_col weight_col =
     [Call_load_tox21, Call_X_shape, Call_MultitaskClassifier,
      Call_fit, Call_Metric, Call_evaluate, Call_print,
      Call_numeric_column ''x'', Call_numeric_column ''weights'',
      Call_make_estimator [x_col] weight_col,
      Call_estimator_train, Call_estimator_evaluate, Call_print]"


subsection \<open>Further notions the claims use\<close>

text \<open>The number the metric tensor of task \<open>i\<close> evaluates to.\<close>

definition auc_value :: "('v, 'w, 'e) libs \<Rightarrow> ('v \<Rightarrow> real) \<Rightarrow> 'v \<Rightarrow> 'v \<Rightarrow> 'v \<Rightarrow> nat \<Rightarrow> real" where
  "auc_value L val labels predictions weights i =
     (case task_auc L labels predictions weights i of Inl e \<Rightarrow> 0 | Inr (metric, update) \<Rightarrow> val metric)"

text \<open>The argument of \<open>mean_auc\<close> a slice is taken of.\<close>

definition tensor_of :: "tensor_arg \<Rightarrow> 'v \<Rightarrow> 'v \<Rightarrow> 'v \<Rightarrow> 'v" where
  "tensor_of a labels predictions weights =
     (case a of Labels \<Rightarrow> labels | Predictions \<Rightarrow> predictions | Weights \<Rightarrow> weights)"

text \<open>A call without the objects it was passed.\<close>

definition erase :: "'v call \<Rightarrow> unit call" where
  "erase c = map_call (\<lambda>_. ()) c"

text \<open>
  \<open>makes m ops\<close>: from any state, the calls \<open>m\<close> adds to the log are an initial part of
  \<open>ops\<close>, and all of \<open>ops\<close> when \<open>m\<close> returns.
\<close>

definition makes :: "('a, 'e, 'v, 'w, 'z) py \<Rightarrow> unit call list \<Rightarrow> bool" where
  "makes m ops \<longleftrightarrow>
     (\<forall>s. \<exists>cs. calls (snd (m s)) = calls s @ cs \<and> prefix (map erase cs) ops \<and>
        ((\<exists>x. fst (m s) = Inr x) \<longrightarrow> map erase cs = ops))"

subsection \<open>What the claims assume of the libraries\<close>

text \<open>
  \<open>has_columns L ncols\<close>: the slice \<open>t[:,i]\<close> succeeds exactly when \<open>i\<close> is below the
  number of columns \<open>ncols t\<close> of the tensor.
\<close>

definition has_columns :: "('v, 'w, 'e) libs \<Rightarrow> ('v \<Rightarrow> nat) \<Rightarrow> bool" where
  "has_columns L ncols \<longleftrightarrow> (\<forall>t i. (\<exists>c. getcol L t i = Inr c) \<longleftrightarrow> i < ncols t)"

text \<open>
  \<open>takes_mean L val\<close>: where \<open>val t\<close> is the number a scalar tensor \<open>t\<close> evaluates to,
  \<open>tf.reduce_mean(tf.stack(ts))\<close> evaluates to the arithmetic mean of the values of
  \<open>ts\<close>, in exact arithmetic.
\<close>

definition takes_mean :: "('v, 'w, 'e) libs \<Rightarrow> ('v \<Rightarrow> real) \<Rightarrow> bool" where
  "takes_mean L val \<longleftrightarrow>
     (\<forall>ts stacked m. ts \<noteq> [] \<and> tf_stack L ts = Inr stacked \<and> reduce_mean L stacked = Inr m
        \<longrightarrow> val m = sum_list (map val ts) / real (length ts))"

subsection \<open>A small instance of the libraries\<close>

text \<open>
  A stand-in for the libraries on which the definitions above can be run: a matrix is
  the list of its columns, a dataset holds its three matrices, and the statistic of
  \<open>stub_auc\<close> is a weighted sum, not an AUC.  The world counts the epochs a model or an
  estimator has been trained for.
\<close>

datatype stub =
    Num real
  | Vec "real list"
  | Mat "real list list"
  | Dataset stub stub stub
  | Iterator stub int int
  | Update "real list"
  | Group "stub list"
  | Obj string

definition stub_val :: "stub \<Rightarrow> real" where
  "stub_val t = (case t of Num r \<Rightarrow> r | _ \<Rightarrow> 0)"

definition stub_ncols :: "stub \<Rightarrow> nat" where
  "stub_ncols t = (case t of Mat cols \<Rightarrow> length cols | _ \<Rightarrow> 0)"

definition stub_get_next :: "stub \<Rightarrow> string + (stub \<times> stub \<times> stub)" where
  "stub_get_next it = (case it of Iterator (Dataset x y w) b e \<Rightarrow> Inr (x, y, w) | _ \<Rightarrow> Inl ''TypeError'')"

definition stub_getcol :: "stub \<Rightarrow> nat \<Rightarrow> string + stub" where
  "stub_getcol t i =
     (case t of Mat cols \<Rightarrow> if i < length cols then Inr (Vec (cols ! i)) else Inl ''IndexError''
      | _ \<Rightarrow> Inl ''IndexError'')"

definition stub_auc :: "stub \<Rightarrow> stub \<Rightarrow> stub \<Rightarrow> string + (stub \<times> stub)" where
  "stub_auc l p w =
     (case (l, p, w) of
        (Vec ls, Vec ps, Vec ws) \<Rightarrow>
          if length ls = length ps \<and> length ps = length ws
          then Inr (Num (sum_list (map (\<lambda>(a, b, c). a * b * c) (zip ls (zip ps ws)))), Update ws)
          else Inl ''ValueError''
      | _ \<Rightarrow> Inl ''TypeError'')"

definition stub_stack :: "stub list \<Rightarrow> string + stub" where
  "stub_stack ts = Inr (Vec (map stub_val ts))"

definition stub_reduce_mean :: "stub \<Rightarrow> string + stub" where
  "stub_reduce_mean t =
     (case t of Vec xs \<Rightarrow> Inr (Num (sum_list xs / real (length xs))) | _ \<Rightarrow> Inl ''TypeError'')"

definition stub_data :: stub where
  "stub_data = Dataset (Mat [[1, 0], [0, 1], [1, 1]]) (Mat [[1, 0], [0, 1]]) (Mat [[1, 1], [1, 2]])"

definition stub_libs :: "(stub, nat, string) libs" where
  "stub_libs = \<lparr>
     make_iterator = (\<lambda>d b e. Inr (Iterator d b e)),
     get_next = stub_get_next,
     getcol = stub_getcol,
     metrics_auc = stub_auc,
     tf_stack = stub_stack,
     reduce_mean = stub_reduce_mean,
     tf_group = (\<lambda>us. Inr (Group us)),
     numeric_column = (\<lambda>k shape. Inr (Obj k)),
     load_tox21 = (\<lambda>w. (Inr ([''NR-AR'', ''SR-p53''], (stub_data, stub_data, stub_data), Obj ''transformers''), w)),
     X_shape_1 = (\<lambda>d w. (case d of Dataset x y ws \<Rightarrow> Inr (stub_ncols x) | _ \<Rightarrow> Inl ''AttributeError'', w)),
     MultitaskClassifier = (\<lambda>n_tasks n_features layer_sizes dropouts w. (Inr (Obj ''model''), w)),
     model_fit = (\<lambda>model d nb_epoch w. (Inr (Num 0), w + nat nb_epoch)),
     roc_auc_score = Obj ''roc_auc_score'',
     np_mean = Obj ''mean'',
     Metric = (\<lambda>f g w. (Inr (Obj ''metric''), w)),
     model_evaluate = (\<lambda>model d metrics w. (Inr (Num (real w)), w)),
     make_estimator = (\<lambda>model cols wcol metrics dir w. (Inr (Obj dir), w)),
     estimator_train = (\<lambda>est f w. (case f of Lambda_input_fn d e \<Rightarrow> (Inr est, w + nat e) | _ \<Rightarrow> (Inl ''TypeError'', w))),
     estimator_evaluate = (\<lambda>est f w. (Inr (Num (real w)), w)) \<rparr>"

definition stub_state :: "nat \<Rightarrow> (stub, nat) pystate" where
  "stub_state n = \<lparr> n_tasks = n, store = [], calls = [], stdout = [], world = 0 \<rparr>"

subsection \<open>The structure of what \<open>mean_auc\<close> returns\<close>

text \<open>
  A \<open>graph\<close> says how a value is built from the three arguments of \<open>mean_auc\<close> by
  library calls; \<open>build\<close> makes the calls.  \<open>metric_graph n\<close> and \<open>update_graph n\<close>
  are the graphs of the two components \<open>mean_auc\<close> returns when \<open>n_tasks\<close> is \<open>n\<close>.
\<close>

datatype graph =
    Arg tensor_arg
  | Column graph nat
  | Auc_metric graph graph graph
  | Auc_update graph graph graph
  | Stack_of "graph list"
  | Mean_of graph
  | Group_of "graph list"

primrec all_of :: "('e + 'a) list \<Rightarrow> 'e + 'a list" where
  "all_of [] = Inr []"
| "all_of (r # rs) =
     (case r of Inl e \<Rightarrow> Inl e | Inr x \<Rightarrow>
      (case all_of rs of Inl e \<Rightarrow> Inl e | Inr xs \<Rightarrow> Inr (x # xs)))"

primrec build :: "('v, 'w, 'e) libs \<Rightarrow> 'v \<Rightarrow> 'v \<Rightarrow> 'v \<Rightarrow> graph \<Rightarrow> 'e + 'v" where
  "build L labels predictions weights (Arg a) = Inr (tensor_of a labels predictions weights)"
| "build L labels predictions weights (Column g i) =
     (case build L labels predictions weights g of Inl e \<Rightarrow> Inl e | Inr t \<Rightarrow> getcol L t i)"
| "build L labels predictions weights (Auc_metric gl gp gw) =
     (case build L labels predictions weights gl of Inl e \<Rightarrow> Inl e | Inr l \<Rightarrow>
      (case build L labels predictions weights gp of Inl e \<Rightarrow> Inl e | Inr p \<Rightarrow>
       (case build L labels predictions weights gw of Inl e \<Rightarrow> Inl e | Inr w \<Rightarrow>
        map_sum id fst (metrics_auc L l p w))))"
| "build L labels predictions weights (Auc_update gl gp gw) =
     (case build L labels predictions weights gl of Inl e \<Rightarrow> Inl e | Inr l \<Rightarrow>
      (case build L labels predictions weights gp of Inl e \<Rightarrow> Inl e | Inr p \<Rightarrow>
       (case build L labels predictions weights gw of Inl e \<Rightarrow> Inl e | Inr w \<Rightarrow>
        map_sum id snd (metrics_auc L l p w))))"
| "build L labels predictions weights (Stack_of gs) =
     (case all_of (map (build L labels predictions weights) gs) of Inl e \<Rightarrow> Inl e
      | Inr ts \<Rightarrow> tf_stack L ts)"
| "build L labels predictions weights (Mean_of g) =
     (case build L labels predictions weights g of Inl e \<Rightarrow> Inl e | Inr t \<Rightarrow> reduce_mean L t)"
| "build L labels predictions weights (Group_of gs) =
     (case all_of (map (build L labels predictions weights) gs) of Inl e \<Rightarrow> Inl e
      | Inr us \<Rightarrow> tf_group L us)"

definition task_metric_graph :: "nat \<Rightarrow> graph" where
  "task_metric_graph i =
     Auc_metric (Column (Arg Labels) i) (Column (Arg Predictions) i) (Column (Arg Weights) i)"

definition task_update_graph :: "nat \<Rightarrow> graph" where
  "task_update_graph i =
     Auc_update (Column (Arg Labels) i) (Column (Arg Predictions) i) (Column (Arg Weights) i)"

definition metric_graph :: "nat \<Rightarrow> graph" where
  "metric_graph n = Mean_of (Stack_of (map task_metric_graph [0..<n]))"

definition update_graph :: "nat \<Rightarrow> graph" where
  "update_graph n = Group_of (map task_update_graph [0..<n])"

subsection \<open>An instance of the libraries with a float32 mean\<close>







definition printed_aucs :: "real list" where
  "printed_aucs = map (\<lambda>m. real m / 2 ^ 24)
     [11881153, 14514465, 14039895, 12920511, 11881013, 13273986,
      12092466, 11060057, 13382967, 12430499, 13829992, 11932686]"

definition printed_aucs_swapped :: "real list" where
  "printed_aucs_swapped = map (\<lambda>m. real m / 2 ^ 24)
     [11932686, 14514465, 14039895, 12920511, 11881013, 13273986,
      12092466, 11060057, 13382967, 12430499, 13829992, 11881153]"



definition swap_0_11 :: "nat \<Rightarrow> nat" where
  "swap_0_11 i = (if i = 0 then 11 else if i = 11 then 0 else i)"

section \<open>Running the definitions\<close>

lemma py_bind_run:
  "py_bind m f s = (case m s of (Inl e, s') \<Rightarrow> (Inl e, s') | (Inr x, s') \<Rightarrow> f x s')"
  by (simp add: py_bind_def)

lemma lib_call_run: "lib_call c r s = (r, s\<lparr>calls := calls s @ [c]\<rparr>)"
  by (simp add: lib_call_def)

lemma auc_task_run:
  "auc_task L labels predictions weights a b i s =
     (map_sum id (\<lambda>_. ()) (task_auc L labels predictions weights i),
      s\<lparr>calls := calls s @ task_calls L labels predictions weights i,
        store := (case task_auc L labels predictions weights i of Inl e \<Rightarrow> store s
                  | Inr r \<Rightarrow> appended a b r (store s))\<rparr>)"
  by (simp add: auc_task_def task_auc_def task_calls_def task_ops_def appended_def py_bind_run
      lib_call_run list_append_def split: sum.splits prod.splits)

lemma for_in_auc_task_run:
  "for_in is (auc_task L labels predictions weights a b) s =
     (map_sum id (\<lambda>_. ()) (tasks_auc L labels predictions weights is),
      s\<lparr>calls := calls s @ tasks_calls L labels predictions weights is,
        store := tasks_store L labels predictions weights a b is (store s)\<rparr>)"
proof (induction "is" arbitrary: s)
  case Nil
  show ?case by (simp add: py_ret_def)
next
  case (Cons i "is")
  note step = auc_task_run [of L labels predictions weights a b i s]
  show ?case
  proof (cases "task_auc L labels predictions weights i")
    case (Inl e)
    with step show ?thesis by (simp add: py_bind_run)
  next
    case (Inr r)
    with step Cons.IH show ?thesis by (simp add: py_bind_run split: sum.splits)
  qed
qed

lemma appended_length [simp]: "length (appended a b r st) = length st"
  by (simp add: appended_def split: prod.splits)

lemma appended_nth:
  "a \<noteq> b \<Longrightarrow> a < length st \<Longrightarrow> b < length st \<Longrightarrow>
   appended a b r st ! k =
     (if k = a then st ! a @ [fst r] else if k = b then st ! b @ [snd r] else st ! k)"
  by (auto simp: appended_def split: prod.splits)

lemma tasks_store_length [simp]:
  "length (tasks_store L labels predictions weights a b is st) = length st"
  by (induction "is" arbitrary: st) (simp_all split: sum.splits)

lemma tasks_store_other:
  "a \<noteq> b \<Longrightarrow> a < length st \<Longrightarrow> b < length st \<Longrightarrow> k \<noteq> a \<Longrightarrow> k \<noteq> b \<Longrightarrow>
   tasks_store L labels predictions weights a b is st ! k = st ! k"
  by (induction "is" arbitrary: st) (simp_all add: appended_nth split: sum.splits)

lemma tasks_store_ok:
  "tasks_auc L labels predictions weights is = Inr rs \<Longrightarrow> a \<noteq> b \<Longrightarrow> a < length st \<Longrightarrow>
   b < length st \<Longrightarrow>
   tasks_store L labels predictions weights a b is st ! a = st ! a @ map fst rs \<and>
   tasks_store L labels predictions weights a b is st ! b = st ! b @ map snd rs"
proof (induction "is" arbitrary: st rs)
  case Nil
  then show ?case by simp
next
  case (Cons i "is")
  then show ?case
    by (auto simp: appended_nth split: sum.splits)
qed

lemma mean_auc_run:
  "mean_auc L labels predictions weights s =
     (mean_auc_result L labels predictions weights (n_tasks s),
      s\<lparr>calls := calls s @ mean_auc_calls L labels predictions weights (n_tasks s),
        store := tasks_store L labels predictions weights (length (store s)) (Suc (length (store s)))
                   [0..<n_tasks s] (store s @ [[], []])\<rparr>)"
proof (cases "tasks_auc L labels predictions weights [0..<n_tasks s]")
  case (Inl e)
  then show ?thesis
    by (simp add: mean_auc_def mean_auc_result_def mean_auc_calls_def py_bind_run new_list_def
        read_n_tasks_def for_in_auc_task_run)
next
  case (Inr rs)
  let ?a = "length (store s)"
  have st:
    "tasks_store L labels predictions weights ?a (Suc ?a) [0..<n_tasks s] (store s @ [[], []]) ! ?a
       = map fst rs"
    "tasks_store L labels predictions weights ?a (Suc ?a) [0..<n_tasks s] (store s @ [[], []]) ! Suc ?a
       = map snd rs"
    using tasks_store_ok [OF Inr, of ?a "Suc ?a" "store s @ [[], []]"]
    by (simp_all add: nth_append)
  show ?thesis
    using Inr st
    by (simp add: mean_auc_def mean_auc_result_def mean_auc_calls_def py_bind_run new_list_def
        read_n_tasks_def for_in_auc_task_run list_read_def lib_call_run finish_def finish_calls_def
        finish_ops_def py_ret_def split: sum.splits)
qed

lemma input_fn_run:
  "input_fn L dataset epochs s =
     (case make_iterator L dataset 100 epochs of
        Inl e \<Rightarrow> (Inl e, s\<lparr>calls := calls s @ take 1 input_fn_ops\<rparr>)
      | Inr iterator \<Rightarrow>
          (case get_next L iterator of
             Inl e \<Rightarrow> (Inl e, s\<lparr>calls := calls s @ input_fn_ops\<rparr>)
           | Inr (x, y, weights) \<Rightarrow>
               (Inr ([''x'' \<mapsto> x, ''weights'' \<mapsto> weights], y), s\<lparr>calls := calls s @ input_fn_ops\<rparr>)))"
  by (simp add: input_fn_def input_fn_ops_def py_bind_run lib_call_run py_ret_def
      split: sum.splits prod.splits)

lemma task_auc_Inr:
  "task_auc L labels predictions weights i = Inr r \<longleftrightarrow>
     (\<exists>l p w. getcol L labels i = Inr l \<and> getcol L predictions i = Inr p \<and>
        getcol L weights i = Inr w \<and> metrics_auc L l p w = Inr r)"
  by (auto simp: task_auc_def split: sum.splits)

lemma tasks_auc_Inr_map:
  "tasks_auc L labels predictions weights is = Inr rs \<longleftrightarrow>
     map (task_auc L labels predictions weights) is = map Inr rs"
proof (induction "is" arbitrary: rs)
  case Nil
  show ?case by auto
next
  case (Cons i "is")
  show ?case
    by (cases rs) (auto simp: Cons.IH [symmetric] split: sum.splits)
qed

lemma tasks_auc_Inr:
  "tasks_auc L labels predictions weights is = Inr rs \<longleftrightarrow>
     length rs = length is \<and>
     (\<forall>k<length is. task_auc L labels predictions weights (is ! k) = Inr (rs ! k))"
proof -
  let ?f = "task_auc L labels predictions weights"
  have "map ?f is = map Inr rs \<longleftrightarrow>
     length (map ?f is) = length (map Inr rs :: ('a + 'b \<times> 'b) list) \<and>
     (\<forall>k<length (map ?f is). map ?f is ! k = map Inr rs ! k)"
    by (rule list_eq_iff_nth_eq)
  also have "\<dots> \<longleftrightarrow> length rs = length is \<and> (\<forall>k<length is. ?f (is ! k) = Inr (rs ! k))"
    by auto
  finally show ?thesis by (simp only: tasks_auc_Inr_map)
qed

lemma finish_Inr:
  "finish L rs = Inr (m, u) \<longleftrightarrow>
     (\<exists>stacked. tf_stack L (map fst rs) = Inr stacked \<and> reduce_mean L stacked = Inr m \<and>
        tf_group L (map snd rs) = Inr u)"
  by (auto simp: finish_def split: sum.splits)

lemma mean_auc_result_Inr:
  "mean_auc_result L labels predictions weights n = Inr (m, u) \<longleftrightarrow>
     (\<exists>rs. length rs = n \<and> (\<forall>i<n. task_auc L labels predictions weights i = Inr (rs ! i)) \<and>
        finish L rs = Inr (m, u))"
proof -
  have ok: "tasks_auc L labels predictions weights [0..<n] = Inr rs \<longleftrightarrow>
      length rs = n \<and> (\<forall>i<n. task_auc L labels predictions weights i = Inr (rs ! i))" for rs
    by (simp add: tasks_auc_Inr)
  show ?thesis
  proof
    assume "mean_auc_result L labels predictions weights n = Inr (m, u)"
    then obtain rs where "tasks_auc L labels predictions weights [0..<n] = Inr rs"
        "finish L rs = Inr (m, u)"
      by (auto simp: mean_auc_result_def split: sum.splits)
    then show "\<exists>rs. length rs = n \<and> (\<forall>i<n. task_auc L labels predictions weights i = Inr (rs ! i)) \<and>
        finish L rs = Inr (m, u)"
      using ok by blast
  next
    assume "\<exists>rs. length rs = n \<and> (\<forall>i<n. task_auc L labels predictions weights i = Inr (rs ! i)) \<and>
        finish L rs = Inr (m, u)"
    then obtain rs where "tasks_auc L labels predictions weights [0..<n] = Inr rs"
        "finish L rs = Inr (m, u)"
      using ok by blast
    then show "mean_auc_result L labels predictions weights n = Inr (m, u)"
      by (simp add: mean_auc_result_def)
  qed
qed


lemma stub_takes_mean: "takes_mean stub_libs stub_val"
  by (auto simp: takes_mean_def stub_libs_def stub_stack_def stub_reduce_mean_def stub_val_def)

lemma stub_has_columns: "has_columns stub_libs stub_ncols"
  by (auto simp: has_columns_def stub_libs_def stub_getcol_def stub_ncols_def split: stub.splits)

lemma upt_2: "[0..<2] = [0, Suc 0]"
  by (simp add: upt_rec)

lemma stub_task_auc:
  "task_auc stub_libs (Mat [[1, 0], [0, 1]]) (Mat [[1, 0], [0, 1]]) (Mat [[1, 1], [1, 2]]) 0 = Inr (Num 1, Update [1, 1])"
  "task_auc stub_libs (Mat [[1, 0], [0, 1]]) (Mat [[1, 0], [0, 1]]) (Mat [[1, 1], [1, 2]]) (Suc 0) = Inr (Num 2, Update [1, 2])"
  by (simp_all add: task_auc_def stub_libs_def stub_getcol_def stub_auc_def)

lemma stub_mean_auc:
  "fst (mean_auc stub_libs (Mat [[1, 0], [0, 1]]) (Mat [[1, 0], [0, 1]]) (Mat [[1, 1], [1, 2]]) (stub_state 2))
     = Inr (Num (3 / 2), Group [Update [1, 1], Update [1, 2]])"
  by (simp add: mean_auc_run mean_auc_result_def stub_state_def upt_2 stub_task_auc finish_def)
     (simp add: stub_libs_def stub_stack_def stub_reduce_mean_def stub_val_def)

lemma task_calls_prefix: "prefix (task_calls L labels predictions weights i) (task_ops i)"
  by (simp add: task_calls_def take_is_prefix split: sum.splits)

lemma task_calls_ok:
  "task_auc L labels predictions weights i = Inr r \<Longrightarrow>
   task_calls L labels predictions weights i = task_ops i"
  by (auto simp: task_auc_def task_calls_def split: sum.splits)

lemma tasks_calls_prefix:
  "prefix (tasks_calls L labels predictions weights is) (concat (map task_ops is))"
proof (induction "is")
  case Nil
  show ?case by simp
next
  case (Cons i "is")
  show ?case
  proof (cases "task_auc L labels predictions weights i")
    case (Inl e)
    then show ?thesis
      using task_calls_prefix [of L labels predictions weights i] by (simp add: prefix_prefix)
  next
    case (Inr r)
    then show ?thesis
      using Cons.IH by (simp add: task_calls_ok)
  qed
qed

lemma tasks_calls_ok:
  "tasks_auc L labels predictions weights is = Inr rs \<Longrightarrow>
   tasks_calls L labels predictions weights is = concat (map task_ops is)"
  by (induction "is" arbitrary: rs) (auto simp: task_calls_ok split: sum.splits)

lemma finish_calls_prefix: "prefix (finish_calls L rs) finish_ops"
  by (simp add: finish_calls_def take_is_prefix split: sum.splits)

lemma finish_calls_ok: "finish L rs = Inr r \<Longrightarrow> finish_calls L rs = finish_ops"
  by (auto simp: finish_def finish_calls_def split: sum.splits)

lemma mean_auc_calls_prefix:
  "prefix (mean_auc_calls L labels predictions weights n) (mean_auc_ops n)"
proof (cases "tasks_auc L labels predictions weights [0..<n]")
  case (Inl e)
  then show ?thesis
    using tasks_calls_prefix [of L labels predictions weights "[0..<n]"]
    by (simp add: mean_auc_calls_def mean_auc_ops_def prefix_prefix)
next
  case (Inr rs)
  then show ?thesis
    using finish_calls_prefix [of L rs]
    by (simp add: mean_auc_calls_def mean_auc_ops_def tasks_calls_ok)
qed

lemma mean_auc_calls_ok:
  "mean_auc_result L labels predictions weights n = Inr r \<Longrightarrow>
   mean_auc_calls L labels predictions weights n = mean_auc_ops n"
  by (auto simp: mean_auc_result_def mean_auc_calls_def mean_auc_ops_def tasks_calls_ok
      finish_calls_ok split: sum.splits)

lemma set_tasks_ops:
  "set (concat (map task_ops is)) =
     (\<Union>i\<in>set is. {Call_slice Labels i, Call_slice Predictions i, Call_slice Weights i, Call_auc i})"
  by (induction "is") (auto simp: task_ops_def)

lemma distinct_tasks_ops: "distinct is \<Longrightarrow> distinct (concat (map task_ops is) :: 'v call list)"
proof (induction "is")
  case Nil
  show ?case by simp
next
  case (Cons i "is")
  have "distinct (task_ops i :: 'v call list)" by (simp add: task_ops_def)
  moreover have "set (task_ops i :: 'v call list) \<inter> set (concat (map task_ops is)) = {}"
    using Cons.prems unfolding set_tasks_ops by (auto simp: task_ops_def)
  ultimately show ?case using Cons by simp
qed

lemma distinct_mean_auc_ops: "distinct (mean_auc_ops n :: 'v call list)"
proof -
  have "distinct (concat (map task_ops [0..<n]) :: 'v call list)"
    by (rule distinct_tasks_ops) simp
  moreover have "set (concat (map task_ops [0..<n]) :: 'v call list) \<inter> set finish_ops = {}"
    unfolding set_tasks_ops by (auto simp: finish_ops_def)
  moreover have "distinct (finish_ops :: 'v call list)"
    by (simp add: finish_ops_def)
  ultimately show ?thesis by (simp add: mean_auc_ops_def)
qed

lemma distinct_prefix: "prefix xs ys \<Longrightarrow> distinct ys \<Longrightarrow> distinct xs"
  by (auto simp: prefix_def)

lemma new_calls_append [simp]: "new_calls s (s'\<lparr>calls := calls s @ cs\<rparr>) = cs"
  by (simp add: new_calls_def)

lemma new_calls_mean_auc:
  "new_calls s (snd (mean_auc L labels predictions weights s))
     = mean_auc_calls L labels predictions weights (n_tasks s)"
  by (simp add: mean_auc_run new_calls_def)

lemma new_calls_input_fn:
  "prefix (new_calls s (snd (input_fn L dataset epochs s))) input_fn_ops"
  by (simp add: input_fn_run new_calls_def take_is_prefix split: sum.splits prod.splits)

lemma task_auc_Inl:
  "task_auc L labels predictions weights i = Inl e \<longleftrightarrow>
     getcol L labels i = Inl e \<or>
     (\<exists>l. getcol L labels i = Inr l \<and>
        (getcol L predictions i = Inl e \<or>
         (\<exists>p. getcol L predictions i = Inr p \<and>
            (getcol L weights i = Inl e \<or>
             (\<exists>w. getcol L weights i = Inr w \<and> metrics_auc L l p w = Inl e)))))"
  by (auto simp: task_auc_def split: sum.splits)

lemma finish_Inl:
  "finish L rs = Inl e \<longleftrightarrow>
     tf_stack L (map fst rs) = Inl e \<or>
     (\<exists>stacked. tf_stack L (map fst rs) = Inr stacked \<and>
        (reduce_mean L stacked = Inl e \<or>
         (\<exists>m. reduce_mean L stacked = Inr m \<and> tf_group L (map snd rs) = Inl e)))"
  by (auto simp: finish_def split: sum.splits)

lemma tasks_auc_Inl:
  "tasks_auc L labels predictions weights is = Inl e \<longleftrightarrow>
     (\<exists>k<length is. (\<forall>j<k. \<exists>r. task_auc L labels predictions weights (is ! j) = Inr r) \<and>
        task_auc L labels predictions weights (is ! k) = Inl e)"
proof (induction "is")
  case Nil
  show ?case by simp
next
  case (Cons i "is")
  let ?f = "task_auc L labels predictions weights"
  let ?P = "\<lambda>xs k. (\<forall>j<k. \<exists>r. ?f (xs ! j) = Inr r) \<and> ?f (xs ! k) = Inl e"
  show ?case
  proof (cases "?f i")
    case (Inl e')
    have "(\<exists>k<length (i # is). ?P (i # is) k) \<longleftrightarrow> e' = e"
    proof
      assume "\<exists>k<length (i # is). ?P (i # is) k"
      then obtain k where k: "?P (i # is) k" by blast
      show "e' = e"
      proof (cases k)
        case 0
        with k Inl show ?thesis by simp
      next
        case (Suc k')
        with k have "\<exists>r. ?f ((i # is) ! 0) = Inr r" by blast
        with Inl show ?thesis by simp
      qed
    next
      assume "e' = e"
      with Inl have "?P (i # is) 0" by simp
      then show "\<exists>k<length (i # is). ?P (i # is) k" by auto
    qed
    with Inl show ?thesis by simp
  next
    case (Inr r)
    have "(\<exists>k<length (i # is). ?P (i # is) k) \<longleftrightarrow> (\<exists>k<length is. ?P is k)"
    proof
      assume "\<exists>k<length (i # is). ?P (i # is) k"
      then obtain k where k: "k < length (i # is)" "?P (i # is) k" by blast
      show "\<exists>k<length is. ?P is k"
      proof (cases k)
        case 0
        with k Inr show ?thesis by simp
      next
        case (Suc k')
        have "?P is k'"
        proof (intro conjI allI impI)
          fix j assume "j < k'"
          then have "Suc j < k" using Suc by simp
          with k(2) have "\<exists>r. ?f ((i # is) ! Suc j) = Inr r" by blast
          then show "\<exists>r. ?f (is ! j) = Inr r" by simp
        next
          from k(2) Suc show "?f (is ! k') = Inl e" by simp
        qed
        moreover from k(1) Suc have "k' < length is" by simp
        ultimately show ?thesis by blast
      qed
    next
      assume "\<exists>k<length is. ?P is k"
      then obtain k where k: "k < length is" "?P is k" by blast
      have "?P (i # is) (Suc k)"
      proof (intro conjI allI impI)
        fix j assume "j < Suc k"
        then show "\<exists>r. ?f ((i # is) ! j) = Inr r"
          using k(2) Inr by (cases j) auto
      next
        from k(2) show "?f ((i # is) ! Suc k) = Inl e" by simp
      qed
      with k(1) show "\<exists>k<length (i # is). ?P (i # is) k" by auto
    qed
    moreover have "tasks_auc L labels predictions weights (i # is) = Inl e \<longleftrightarrow>
        tasks_auc L labels predictions weights is = Inl e"
      using Inr by (auto split: sum.splits)
    ultimately show ?thesis using Cons.IH by blast
  qed
qed

lemma mean_auc_result_Inl:
  "mean_auc_result L labels predictions weights n = Inl e \<longleftrightarrow>
     (\<exists>i<n. (\<forall>j<i. \<exists>r. task_auc L labels predictions weights j = Inr r) \<and>
        task_auc L labels predictions weights i = Inl e) \<or>
     (\<exists>rs. length rs = n \<and> (\<forall>i<n. task_auc L labels predictions weights i = Inr (rs ! i)) \<and>
        finish L rs = Inl e)"
proof -
  let ?f = "task_auc L labels predictions weights"
  have fail: "tasks_auc L labels predictions weights [0..<n] = Inl e' \<longleftrightarrow>
      (\<exists>i<n. (\<forall>j<i. \<exists>r. ?f j = Inr r) \<and> ?f i = Inl e')" for e'
    unfolding tasks_auc_Inl by (auto simp: less_trans)
  have ok: "tasks_auc L labels predictions weights [0..<n] = Inr rs \<longleftrightarrow>
      length rs = n \<and> (\<forall>i<n. ?f i = Inr (rs ! i))" for rs
    by (simp add: tasks_auc_Inr)
  show ?thesis
  proof (cases "tasks_auc L labels predictions weights [0..<n]")
    case (Inl e')
    then have "\<not> (\<exists>rs. length rs = n \<and> (\<forall>i<n. ?f i = Inr (rs ! i)))"
      using ok by auto
    moreover have "mean_auc_result L labels predictions weights n = Inl e \<longleftrightarrow>
        tasks_auc L labels predictions weights [0..<n] = Inl e"
      using Inl by (simp add: mean_auc_result_def)
    ultimately show ?thesis using fail by blast
  next
    case (Inr rs)
    then have "\<not> (\<exists>i<n. (\<forall>j<i. \<exists>r. ?f j = Inr r) \<and> ?f i = Inl e)"
      using fail [of e] by auto
    moreover have uniq: "rs' = rs" if "length rs' = n" "\<forall>i<n. ?f i = Inr (rs' ! i)" for rs'
    proof -
      from that have "tasks_auc L labels predictions weights [0..<n] = Inr rs'"
        using ok by blast
      with Inr show ?thesis by simp
    qed
    moreover have "length rs = n \<and> (\<forall>i<n. ?f i = Inr (rs ! i))"
      using Inr ok by blast
    ultimately have "(\<exists>rs'. length rs' = n \<and> (\<forall>i<n. ?f i = Inr (rs' ! i)) \<and> finish L rs' = Inl e)
        \<longleftrightarrow> finish L rs = Inl e"
      by blast
    moreover note \<open>\<not> (\<exists>i<n. (\<forall>j<i. \<exists>r. ?f j = Inr r) \<and> ?f i = Inl e)\<close>
    moreover have "mean_auc_result L labels predictions weights n = Inl e \<longleftrightarrow> finish L rs = Inl e"
      using Inr by (simp add: mean_auc_result_def)
    ultimately show ?thesis by blast
  qed
qed


lemma stub_task_auc_short:
  "task_auc stub_libs (Mat [[1, 0]]) (Mat [[1, 0], [0, 1]]) (Mat [[1, 1], [1, 2]]) 0 = Inr (Num 1, Update [1, 1])"
  "task_auc stub_libs (Mat [[1, 0]]) (Mat [[1, 0], [0, 1]]) (Mat [[1, 1], [1, 2]]) (Suc 0) = Inl ''IndexError''"
  by (simp_all add: task_auc_def stub_libs_def stub_getcol_def stub_auc_def)

lemma tasks_store_frame:
  assumes "a \<noteq> b" "a < length st" "b < length st" "n \<le> a" "n \<le> b"
  shows "take n (tasks_store L labels predictions weights a b is st) = take n st"
proof (rule nth_equalityI)
  show "length (take n (tasks_store L labels predictions weights a b is st)) = length (take n st)"
    by simp
next
  fix k assume "k < length (take n (tasks_store L labels predictions weights a b is st))"
  then have k: "k < n" "k < length st" by simp_all
  with assms have "tasks_store L labels predictions weights a b is st ! k = st ! k"
    by (intro tasks_store_other) simp_all
  with k show "take n (tasks_store L labels predictions weights a b is st) ! k = take n st ! k"
    by simp
qed

lemma mean_auc_store:
  "take (length (store s)) (store (snd (mean_auc L labels predictions weights s))) = store s"
  "length (store (snd (mean_auc L labels predictions weights s))) = length (store s) + 2"
  using tasks_store_frame [of "length (store s)" "Suc (length (store s))" "store s @ [[], []]"
      "length (store s)" L labels predictions weights "[0..<n_tasks s]"]
  by (simp_all add: mean_auc_run)

lemma new_calls_input_fn_ok:
  "fst (input_fn L dataset epochs s) = Inr r \<Longrightarrow>
   new_calls s (snd (input_fn L dataset epochs s)) = input_fn_ops"
  by (auto simp: input_fn_run new_calls_def split: sum.splits prod.splits)

lemma new_calls_mean_auc_ok:
  "fst (mean_auc L labels predictions weights s) = Inr r \<Longrightarrow>
   new_calls s (snd (mean_auc L labels predictions weights s)) = mean_auc_ops (n_tasks s)"
  by (simp add: new_calls_mean_auc) (simp add: mean_auc_run mean_auc_calls_ok)

lemma mean_auc_local_lists:
  assumes "fst (mean_auc L labels predictions weights s) = Inr r"
  shows "length (store (snd (mean_auc L labels predictions weights s)) ! length (store s)) = n_tasks s"
    and "length (store (snd (mean_auc L labels predictions weights s)) ! Suc (length (store s))) = n_tasks s"
proof -
  from assms obtain rs where rs: "tasks_auc L labels predictions weights [0..<n_tasks s] = Inr rs"
    by (auto simp: mean_auc_run mean_auc_result_def split: sum.splits)
  then have len: "length rs = n_tasks s" by (simp add: tasks_auc_Inr)
  let ?a = "length (store s)"
  from tasks_store_ok [OF rs, of ?a "Suc ?a" "store s @ [[], []]"]
  have "tasks_store L labels predictions weights ?a (Suc ?a) [0..<n_tasks s] (store s @ [[], []]) ! ?a
       = map fst rs"
    "tasks_store L labels predictions weights ?a (Suc ?a) [0..<n_tasks s] (store s @ [[], []]) ! Suc ?a
       = map snd rs"
    by (simp_all add: nth_append)
  with len show "length (store (snd (mean_auc L labels predictions weights s)) ! length (store s)) = n_tasks s"
    and "length (store (snd (mean_auc L labels predictions weights s)) ! Suc (length (store s))) = n_tasks s"
    by (simp_all add: mean_auc_run)
qed


lemma stub_mean_auc_other:
  "fst (mean_auc stub_libs (Mat [[5], [7]]) (Mat [[2], [3]]) (Mat [[1], [0]]) (stub_state 2))
     = Inr (Num 5, Group [Update [1], Update [0]])"
proof -
  have "task_auc stub_libs (Mat [[5], [7]]) (Mat [[2], [3]]) (Mat [[1], [0]]) 0 = Inr (Num 10, Update [1])"
    "task_auc stub_libs (Mat [[5], [7]]) (Mat [[2], [3]]) (Mat [[1], [0]]) (Suc 0) = Inr (Num 0, Update [0])"
    by (simp_all add: task_auc_def stub_libs_def stub_getcol_def stub_auc_def)
  then show ?thesis
    by (simp add: mean_auc_run mean_auc_result_def stub_state_def upt_2 finish_def)
       (simp add: stub_libs_def stub_stack_def stub_reduce_mean_def stub_val_def)
qed

lemma slice_in_mean_auc_ops:
  "Call_slice a i \<in> set (mean_auc_ops n) \<Longrightarrow> i < n"
  by (auto simp: mean_auc_ops_def task_ops_def finish_ops_def)

lemma slice_in_new_calls:
  "Call_slice a i \<in> set (new_calls s (snd (mean_auc L labels predictions weights s))) \<Longrightarrow>
   i < n_tasks s"
  using mean_auc_calls_prefix [of L labels predictions weights "n_tasks s"]
  by (auto simp: new_calls_mean_auc dest: set_mono_prefix intro: slice_in_mean_auc_ops)

lemma mean_auc_Inr_slices:
  assumes "fst (mean_auc L labels predictions weights s) = Inr r" "i < n_tasks s"
  shows "(\<exists>c. getcol L labels i = Inr c) \<and> (\<exists>c. getcol L predictions i = Inr c) \<and>
         (\<exists>c. getcol L weights i = Inr c)"
proof -
  obtain m u where "r = (m, u)" by (cases r)
  with assms(1) obtain rs where "\<forall>i<n_tasks s. task_auc L labels predictions weights i = Inr (rs ! i)"
    by (auto simp: mean_auc_run mean_auc_result_Inr)
  with assms(2) have "task_auc L labels predictions weights i = Inr (rs ! i)" by simp
  then show ?thesis by (auto simp: task_auc_Inr)
qed







lemma world_call_run:
  "world_call c f s = (case f (world s) of (r, w') \<Rightarrow> (r, s\<lparr>calls := calls s @ [c], world := w'\<rparr>))"
  by (simp add: world_call_def)

lemma py_bind_Inr:
  "py_bind m f s = (Inr y, s'') \<longleftrightarrow> (\<exists>x s'. m s = (Inr x, s') \<and> f x s' = (Inr y, s''))"
  by (auto simp: py_bind_def split: sum.splits prod.splits)

lemma world_call_Inr:
  "world_call c f s = (Inr x, s') \<longleftrightarrow>
     (\<exists>w'. f (world s) = (Inr x, w') \<and> s' = s\<lparr>calls := calls s @ [c], world := w'\<rparr>)"
  by (auto simp: world_call_def split: prod.splits)

lemma lib_call_Inr:
  "lib_call c r s = (Inr x, s') \<longleftrightarrow> r = Inr x \<and> s' = s\<lparr>calls := calls s @ [c]\<rparr>"
  by (auto simp: lib_call_def)

lemma cell1_Inr:
  "cell1 L s = (Inr (train_dataset, test_dataset, n_features, model), s') \<longleftrightarrow>
     (\<exists>tasks valid_dataset transformers w1 w2 w3.
        load_tox21 L (world s) = (Inr (tasks, (train_dataset, valid_dataset, test_dataset), transformers), w1) \<and>
        X_shape_1 L train_dataset w1 = (Inr n_features, w2) \<and>
        MultitaskClassifier L (length tasks) n_features [1000] (1/4) w2 = (Inr model, w3) \<and>
        s' = s\<lparr>n_tasks := length tasks,
               calls := calls s @ [Call_load_tox21, Call_X_shape, Call_MultitaskClassifier],
               world := w3\<rparr>)"
  unfolding cell1_def
  by (auto simp: py_bind_Inr world_call_Inr py_ret_def set_n_tasks_def read_n_tasks_def
      split: prod.splits)

lemma cell2_Inr:
  "cell2 L model train_dataset test_dataset s = (Inr (), s') \<longleftrightarrow>
     (\<exists>fitted w4 metric w5 scores w6.
        model_fit L model train_dataset 100 (world s) = (Inr fitted, w4) \<and>
        Metric L (roc_auc_score L) (np_mean L) w4 = (Inr metric, w5) \<and>
        model_evaluate L model test_dataset [metric] w5 = (Inr scores, w6) \<and>
        s' = s\<lparr>calls := calls s @ [Call_fit, Call_Metric, Call_evaluate, Call_print],
               stdout := stdout s @ [scores], world := w6\<rparr>)"
  unfolding cell2_def
  by (auto simp: py_bind_Inr world_call_Inr py_print_def)

lemma cell4_Inr:
  "cell4 L n_features s = (Inr (x_col, weight_col), s') \<longleftrightarrow>
     numeric_column L ''x'' [n_features] = Inr x_col \<and>
     numeric_column L ''weights'' [n_tasks s] = Inr weight_col \<and>
     s' = s\<lparr>calls := calls s @ [Call_numeric_column ''x'', Call_numeric_column ''weights'']\<rparr>"
  unfolding cell4_def
  by (auto simp: py_bind_Inr lib_call_Inr py_ret_def read_n_tasks_def)

lemma cell6_Inr:
  "cell6 L model x_col weight_col s = (Inr estimator, s') \<longleftrightarrow>
     (\<exists>w7. make_estimator L model [x_col] weight_col [(''mean_auc'', Fn_mean_auc)] ''estimator'' (world s)
             = (Inr estimator, w7) \<and>
        s' = s\<lparr>calls := calls s @ [Call_make_estimator [x_col] weight_col], world := w7\<rparr>)"
  unfolding cell6_def by (simp add: world_call_Inr)

lemma cell7_Inr:
  "cell7 L estimator train_dataset test_dataset s = (Inr (), s') \<longleftrightarrow>
     (\<exists>trained w8 results w9.
        estimator_train L estimator (Lambda_input_fn train_dataset 100) (world s) = (Inr trained, w8) \<and>
        estimator_evaluate L estimator (Lambda_input_fn test_dataset 1) w8 = (Inr results, w9) \<and>
        s' = s\<lparr>calls := calls s @ [Call_estimator_train, Call_estimator_evaluate, Call_print],
               stdout := stdout s @ [results], world := w9\<rparr>)"
  unfolding cell7_def
  by (auto simp: py_bind_Inr world_call_Inr py_print_def)

lemma notebook_Inr:
  "notebook L s = (Inr (), s') \<longleftrightarrow>
     (\<exists>tasks train_dataset valid_dataset test_dataset transformers w1 n_features w2 model w3
         fitted w4 metric w5 scores w6 x_col weight_col estimator w7 trained w8 results w9.
        load_tox21 L (world s) = (Inr (tasks, (train_dataset, valid_dataset, test_dataset), transformers), w1) \<and>
        X_shape_1 L train_dataset w1 = (Inr n_features, w2) \<and>
        MultitaskClassifier L (length tasks) n_features [1000] (1/4) w2 = (Inr model, w3) \<and>
        model_fit L model train_dataset 100 w3 = (Inr fitted, w4) \<and>
        Metric L (roc_auc_score L) (np_mean L) w4 = (Inr metric, w5) \<and>
        model_evaluate L model test_dataset [metric] w5 = (Inr scores, w6) \<and>
        numeric_column L ''x'' [n_features] = Inr x_col \<and>
        numeric_column L ''weights'' [length tasks] = Inr weight_col \<and>
        make_estimator L model [x_col] weight_col [(''mean_auc'', Fn_mean_auc)] ''estimator'' w6
          = (Inr estimator, w7) \<and>
        estimator_train L estimator (Lambda_input_fn train_dataset 100) w7 = (Inr trained, w8) \<and>
        estimator_evaluate L estimator (Lambda_input_fn test_dataset 1) w8 = (Inr results, w9) \<and>
        s' = s\<lparr>n_tasks := length tasks, calls := calls s @ notebook_ops x_col weight_col,
          stdout := stdout s @ [scores, results], world := w9\<rparr>)"
  unfolding notebook_def
  by (auto simp: py_bind_Inr cell1_Inr cell2_Inr cell4_Inr cell6_Inr cell7_Inr notebook_ops_def)


lemma makes_bind:
  assumes "makes m a" and "\<And>x. makes (f x) b"
  shows "makes (py_bind m f) (a @ b)"
  unfolding makes_def
proof
  fix s
  from assms(1) obtain cs where cs: "calls (snd (m s)) = calls s @ cs" "prefix (map erase cs) a"
      "(\<exists>x. fst (m s) = Inr x) \<longrightarrow> map erase cs = a"
    unfolding makes_def by blast
  show "\<exists>cs. calls (snd (py_bind m f s)) = calls s @ cs \<and> prefix (map erase cs) (a @ b) \<and>
        ((\<exists>x. fst (py_bind m f s) = Inr x) \<longrightarrow> map erase cs = a @ b)"
  proof (cases "m s")
    case (Pair r s')
    show ?thesis
    proof (cases r)
      case (Inl e)
      with Pair cs show ?thesis
        by (intro exI [of _ cs]) (simp add: py_bind_run prefix_prefix)
    next
      case (Inr x)
      from assms(2) [of x] obtain cs' where cs': "calls (snd (f x s')) = calls s' @ cs'"
          "prefix (map erase cs') b" "(\<exists>y. fst (f x s') = Inr y) \<longrightarrow> map erase cs' = b"
        unfolding makes_def by blast
      from Pair Inr cs have "map erase cs = a" "calls s' = calls s @ cs" by simp_all
      with Pair Inr cs' show ?thesis
        by (intro exI [of _ "cs @ cs'"]) (simp add: py_bind_run)
    qed
  qed
qed

lemma makes_world_call: "makes (world_call c f) [erase c]"
  unfolding makes_def
  by (intro allI exI [of _ "[c]"]) (simp add: world_call_def split: prod.splits)

lemma makes_lib_call: "makes (lib_call c r) [erase c]"
  unfolding makes_def by (intro allI exI [of _ "[c]"]) (simp add: lib_call_def)

lemma makes_print: "makes (py_print x) [Call_print]"
  unfolding makes_def by (intro allI exI [of _ "[Call_print]"]) (simp add: py_print_def erase_def)

lemma makes_silent:
  "makes (py_ret x) []" "makes (set_n_tasks n) []" "makes read_n_tasks []"
  unfolding makes_def by (simp_all add: py_ret_def set_n_tasks_def read_n_tasks_def)

lemma makes_case_prod: "(\<And>a b. makes (f a b) ops) \<Longrightarrow> makes (case p of (a, b) \<Rightarrow> f a b) ops"
  by (cases p) simp

lemma makes_cell1:
  fixes L :: "('v, 'w, 'e) libs"
  shows "makes (cell1 L) [Call_load_tox21, Call_X_shape, Call_MultitaskClassifier]"
proof -
  have "makes (cell1 L) ([erase (Call_load_tox21 :: 'v call)] @ [] @ [erase (Call_X_shape :: 'v call)] @ [] @ [erase (Call_MultitaskClassifier :: 'v call)] @ [])"
    unfolding cell1_def
    by (intro makes_bind makes_case_prod makes_world_call makes_silent)
  then show ?thesis by (simp add: erase_def)
qed

lemma makes_cell2:
  fixes L :: "('v, 'w, 'e) libs"
  shows "makes (cell2 L model train_dataset test_dataset) [Call_fit, Call_Metric, Call_evaluate, Call_print]"
proof -
  have "makes (cell2 L model train_dataset test_dataset)
      ([erase (Call_fit :: 'v call)] @ [erase (Call_Metric :: 'v call)] @ [erase (Call_evaluate :: 'v call)] @ [Call_print])"
    unfolding cell2_def
    by (intro makes_bind makes_world_call makes_print)
  then show ?thesis by (simp add: erase_def)
qed

lemma makes_cell4:
  fixes L :: "('v, 'w, 'e) libs"
  shows "makes (cell4 L n_features) [Call_numeric_column ''x'', Call_numeric_column ''weights'']"
proof -
  have "makes (cell4 L n_features)
      ([erase (Call_numeric_column ''x'' :: 'v call)] @ [] @ [erase (Call_numeric_column ''weights'' :: 'v call)] @ [])"
    unfolding cell4_def
    by (intro makes_bind makes_lib_call makes_silent)
  then show ?thesis by (simp add: erase_def)
qed

lemma makes_cell6: "makes (cell6 L model x_col weight_col) [Call_make_estimator [()] ()]"
  using makes_world_call [of "Call_make_estimator [x_col] weight_col"]
  by (simp add: cell6_def erase_def)

lemma makes_cell7:
  fixes L :: "('v, 'w, 'e) libs"
  shows "makes (cell7 L estimator train_dataset test_dataset)
     [Call_estimator_train, Call_estimator_evaluate, Call_print]"
proof -
  have "makes (cell7 L estimator train_dataset test_dataset)
      ([erase (Call_estimator_train :: 'v call)] @ [erase (Call_estimator_evaluate :: 'v call)] @ [Call_print])"
    unfolding cell7_def
    by (intro makes_bind makes_world_call makes_print)
  then show ?thesis by (simp add: erase_def)
qed

lemma makes_notebook: "makes (notebook L) (notebook_ops () ())"
proof -
  have "makes (notebook L)
      ([Call_load_tox21, Call_X_shape, Call_MultitaskClassifier] @
       [Call_fit, Call_Metric, Call_evaluate, Call_print] @
       [Call_numeric_column ''x'', Call_numeric_column ''weights''] @
       [Call_make_estimator [()] ()] @
       [Call_estimator_train, Call_estimator_evaluate, Call_print])"
    unfolding notebook_def
    by (intro makes_bind makes_case_prod makes_cell1 makes_cell2 makes_cell4 makes_cell6 makes_cell7)
  then show ?thesis by (simp add: notebook_ops_def)
qed

lemma notebook_Inr_fst:
  "fst (notebook L s) = Inr () \<longleftrightarrow> notebook L s = (Inr (), snd (notebook L s))"
  by (metis fst_conv prod.collapse)


lemma stub_notebook:
  "notebook stub_libs (stub_state 0) =
     (Inr (), \<lparr>n_tasks = 2, store = [],
        calls = notebook_ops (Obj ''x'') (Obj ''weights''),
        stdout = [Num 100, Num 200], world = 200\<rparr>)"
  by (simp add: notebook_def cell1_def cell2_def cell4_def cell6_def cell7_def py_bind_run
      world_call_def lib_call_run py_ret_def py_print_def set_n_tasks_def read_n_tasks_def
      stub_libs_def stub_state_def stub_data_def notebook_ops_def)





lemma build_task_graphs:
  "build L labels predictions weights (task_metric_graph i)
     = map_sum id fst (task_auc L labels predictions weights i)"
  "build L labels predictions weights (task_update_graph i)
     = map_sum id snd (task_auc L labels predictions weights i)"
  by (simp_all add: task_metric_graph_def task_update_graph_def task_auc_def tensor_of_def
      split: sum.splits)

lemma all_of_tasks:
  "all_of (map (\<lambda>i. map_sum id f (task_auc L labels predictions weights i)) is)
     = map_sum id (map f) (tasks_auc L labels predictions weights is)"
  by (induction "is") (simp_all split: sum.splits)

lemma build_metric_graph:
  "build L labels predictions weights (metric_graph n) =
     (case tasks_auc L labels predictions weights [0..<n] of Inl e \<Rightarrow> Inl e
      | Inr rs \<Rightarrow> (case tf_stack L (map fst rs) of Inl e \<Rightarrow> Inl e | Inr t \<Rightarrow> reduce_mean L t))"
  by (simp add: metric_graph_def comp_def build_task_graphs all_of_tasks split: sum.splits)

lemma build_update_graph:
  "build L labels predictions weights (update_graph n) =
     (case tasks_auc L labels predictions weights [0..<n] of Inl e \<Rightarrow> Inl e
      | Inr rs \<Rightarrow> tf_group L (map snd rs))"
  by (simp add: update_graph_def comp_def build_task_graphs all_of_tasks split: sum.splits)

lemma mean_auc_builds:
  "fst (mean_auc L labels predictions weights s) =
     (case build L labels predictions weights (metric_graph (n_tasks s)) of Inl e \<Rightarrow> Inl e
      | Inr m \<Rightarrow>
          (case build L labels predictions weights (update_graph (n_tasks s)) of Inl e \<Rightarrow> Inl e
           | Inr u \<Rightarrow> Inr (m, u)))"
  by (simp add: mean_auc_run mean_auc_result_def finish_def build_metric_graph build_update_graph
      split: sum.splits)




lemma upt_12: "[0..<12] = [0, 1, 2, 3, 4, 5, 6, 7, 8, 9, 10, 11]"
  by (simp add: upt_rec)




lemma printed_aucs_swapped_nth:
  "printed_aucs_swapped = map (\<lambda>i. printed_aucs ! swap_0_11 i) [0..<12]"
  by (simp add: printed_aucs_swapped_def printed_aucs_def upt_12 swap_0_11_def)





section \<open>The claims\<close>

text \<open>
  Claim C1.  \<open>input_fn\<close> returns a pair exactly when the two library calls it makes
  return, and then the pair is the mapping with the feature tensor under \<open>'x'\<close> and the
  weight tensor under \<open>'weights'\<close>, and the label tensor; the three tensors are the
  components of \<open>get_next()\<close> on the iterator the dataset made with batch size 100 and
  the epoch count given.
\<close>

theorem input_fn_returns:
  "input_fn L dataset epochs s = (Inr (features, y), s') \<longleftrightarrow>
     (\<exists>iterator x weights.
        make_iterator L dataset 100 epochs = Inr iterator \<and>
        get_next L iterator = Inr (x, y, weights) \<and>
        features = [''x'' \<mapsto> x, ''weights'' \<mapsto> weights] \<and>
        s' = s\<lparr>calls := calls s @ [Call_make_iterator, Call_get_next]\<rparr>)"
  by (auto simp: input_fn_run input_fn_ops_def split: sum.splits prod.splits)

theorem input_fn_returns_witness:
  "make_iterator stub_libs stub_data 100 3 = Inr (Iterator stub_data 100 3) \<and>
   get_next stub_libs (Iterator stub_data 100 3)
     = Inr (Mat [[1, 0], [0, 1], [1, 1]], Mat [[1, 0], [0, 1]], Mat [[1, 1], [1, 2]]) \<and>
   fst (input_fn stub_libs stub_data 3 (stub_state 2))
     = Inr ([''x'' \<mapsto> Mat [[1, 0], [0, 1], [1, 1]], ''weights'' \<mapsto> Mat [[1, 1], [1, 2]]],
            Mat [[1, 0], [0, 1]])"
  using input_fn_returns [of stub_libs stub_data 3 "stub_state 2"
      "[''x'' \<mapsto> Mat [[1, 0], [0, 1], [1, 1]], ''weights'' \<mapsto> Mat [[1, 1], [1, 2]]]"
      "Mat [[1, 0], [0, 1]]"
      "(stub_state 2)\<lparr>calls := [Call_make_iterator, Call_get_next]\<rparr>"]
  by (simp add: stub_libs_def stub_get_next_def stub_data_def stub_state_def)

text \<open>
  Claim C2.  \<open>mean_auc\<close> returns exactly when, for every task \<open>i\<close> below \<open>n_tasks\<close>,
  the slices of column \<open>i\<close> of labels, predictions and weights and the AUC metric of
  the three slices return, and stacking the \<open>n_tasks\<close> metrics, taking the mean and
  grouping the \<open>n_tasks\<close> update operations return; it returns that mean and that
  group.  Where the library's mean of a stack is the arithmetic mean, the value returned is
  the sum of the \<open>n_tasks\<close> per-task AUC values divided by \<open>n_tasks\<close>.
\<close>

theorem mean_auc_returns:
  "(fst (mean_auc L labels predictions weights s) = Inr (mean_metric, update_all) \<longleftrightarrow>
     (\<exists>metric_ops update_ops stacked.
        length metric_ops = n_tasks s \<and> length update_ops = n_tasks s \<and>
        (\<forall>i<n_tasks s. \<exists>l p w.
           getcol L labels i = Inr l \<and> getcol L predictions i = Inr p \<and>
           getcol L weights i = Inr w \<and>
           metrics_auc L l p w = Inr (metric_ops ! i, update_ops ! i)) \<and>
        tf_stack L metric_ops = Inr stacked \<and> reduce_mean L stacked = Inr mean_metric \<and>
        tf_group L update_ops = Inr update_all)) \<and>
   (fst (mean_auc L labels predictions weights s) = Inr (mean_metric, update_all) \<and>
    takes_mean L val \<and> 0 < n_tasks s \<longrightarrow>
      val mean_metric
        = (\<Sum>i<n_tasks s. auc_value L val labels predictions weights i) / real (n_tasks s))"
proof (intro conjI iffI impI)
  let ?n = "n_tasks s"
  assume "fst (mean_auc L labels predictions weights s) = Inr (mean_metric, update_all)"
  then obtain rs where rs: "length rs = ?n"
      "\<forall>i<?n. task_auc L labels predictions weights i = Inr (rs ! i)"
      "finish L rs = Inr (mean_metric, update_all)"
    by (auto simp: mean_auc_run mean_auc_result_Inr)
  from rs(3) obtain stacked where fin: "tf_stack L (map fst rs) = Inr stacked"
      "reduce_mean L stacked = Inr mean_metric" "tf_group L (map snd rs) = Inr update_all"
    by (auto simp: finish_Inr)
  have "\<forall>i<?n. \<exists>l p w. getcol L labels i = Inr l \<and> getcol L predictions i = Inr p \<and>
           getcol L weights i = Inr w \<and> metrics_auc L l p w = Inr (map fst rs ! i, map snd rs ! i)"
    using rs(1,2) by (auto simp: task_auc_Inr)
  with rs(1) fin
  show "\<exists>metric_ops update_ops stacked.
        length metric_ops = ?n \<and> length update_ops = ?n \<and>
        (\<forall>i<?n. \<exists>l p w.
           getcol L labels i = Inr l \<and> getcol L predictions i = Inr p \<and>
           getcol L weights i = Inr w \<and>
           metrics_auc L l p w = Inr (metric_ops ! i, update_ops ! i)) \<and>
        tf_stack L metric_ops = Inr stacked \<and> reduce_mean L stacked = Inr mean_metric \<and>
        tf_group L update_ops = Inr update_all"
    by (intro exI [of _ "map fst rs"] exI [of _ "map snd rs"] exI [of _ stacked]) simp
next
  let ?n = "n_tasks s"
  assume "\<exists>metric_ops update_ops stacked.
        length metric_ops = ?n \<and> length update_ops = ?n \<and>
        (\<forall>i<?n. \<exists>l p w.
           getcol L labels i = Inr l \<and> getcol L predictions i = Inr p \<and>
           getcol L weights i = Inr w \<and>
           metrics_auc L l p w = Inr (metric_ops ! i, update_ops ! i)) \<and>
        tf_stack L metric_ops = Inr stacked \<and> reduce_mean L stacked = Inr mean_metric \<and>
        tf_group L update_ops = Inr update_all"
  then obtain ms us stacked where h: "length ms = ?n" "length us = ?n"
      "\<forall>i<?n. \<exists>l p w. getcol L labels i = Inr l \<and> getcol L predictions i = Inr p \<and>
           getcol L weights i = Inr w \<and> metrics_auc L l p w = Inr (ms ! i, us ! i)"
      "tf_stack L ms = Inr stacked" "reduce_mean L stacked = Inr mean_metric"
      "tf_group L us = Inr update_all"
    by blast
  have "\<forall>i<?n. task_auc L labels predictions weights i = Inr (zip ms us ! i)"
    using h(1,2,3) by (simp add: task_auc_Inr)
  moreover have "finish L (zip ms us) = Inr (mean_metric, update_all)"
    using h by (auto simp: finish_Inr)
  ultimately show "fst (mean_auc L labels predictions weights s) = Inr (mean_metric, update_all)"
    using h(1,2) by (auto simp: mean_auc_run mean_auc_result_Inr intro!: exI [of _ "zip ms us"])
next
  let ?n = "n_tasks s"
  assume a: "fst (mean_auc L labels predictions weights s) = Inr (mean_metric, update_all) \<and>
    takes_mean L val \<and> 0 < ?n"
  then obtain rs where rs: "length rs = ?n"
      "\<forall>i<?n. task_auc L labels predictions weights i = Inr (rs ! i)"
      "finish L rs = Inr (mean_metric, update_all)"
    by (auto simp: mean_auc_run mean_auc_result_Inr)
  from rs(3) obtain stacked where fin: "tf_stack L (map fst rs) = Inr stacked"
      "reduce_mean L stacked = Inr mean_metric"
    by (auto simp: finish_Inr)
  from a rs(1) have "map fst rs \<noteq> []" by auto
  with a fin have "val mean_metric = sum_list (map val (map fst rs)) / real (length (map fst rs))"
    unfolding takes_mean_def by blast
  moreover have "sum_list (map val (map fst rs)) = (\<Sum>i<?n. val (fst (rs ! i)))"
    using rs(1) by (simp add: sum_list_sum_nth atLeast0LessThan comp_def)
  moreover have "(\<Sum>i<?n. val (fst (rs ! i))) = (\<Sum>i<?n. auc_value L val labels predictions weights i)"
    using rs(2) by (intro sum.cong) (auto simp: auc_value_def split: prod.splits)
  ultimately show "val mean_metric
        = (\<Sum>i<?n. auc_value L val labels predictions weights i) / real ?n"
    using rs(1) by simp
qed

theorem mean_auc_returns_witness:
  "fst (mean_auc stub_libs (Mat [[1, 0], [0, 1]]) (Mat [[1, 0], [0, 1]]) (Mat [[1, 1], [1, 2]]) (stub_state 2))
     = Inr (Num (3 / 2), Group [Update [1, 1], Update [1, 2]]) \<and>
   takes_mean stub_libs stub_val \<and> 0 < n_tasks (stub_state 2) \<and>
   stub_val (Num (3 / 2))
     = (\<Sum>i<2. auc_value stub_libs stub_val (Mat [[1, 0], [0, 1]]) (Mat [[1, 0], [0, 1]]) (Mat [[1, 1], [1, 2]]) i) / 2"
  using mean_auc_returns [of stub_libs "Mat [[1, 0], [0, 1]]" "Mat [[1, 0], [0, 1]]" "Mat [[1, 1], [1, 2]]"
      "stub_state 2" "Num (3 / 2)" "Group [Update [1, 1], Update [1, 2]]" stub_val]
    stub_takes_mean stub_mean_auc
  by (simp add: stub_state_def)

text \<open>
  Claim C4.  Neither function handles an exception.  \<open>input_fn\<close> raises \<open>e\<close> exactly
  when \<open>make_iterator\<close> raises \<open>e\<close>, or it returns and \<open>get_next\<close> raises \<open>e\<close>.
  \<open>mean_auc\<close> raises \<open>e\<close> exactly when some task's library calls raise \<open>e\<close> after
  those of all earlier tasks have returned, or all tasks' calls return and the calls after
  the loop raise \<open>e\<close>; a task's calls raise \<open>e\<close> exactly when the first of its three
  slices and \<open>tf.metrics.auc\<close> that raises, raises \<open>e\<close>, and likewise for
  \<open>tf.stack\<close>, \<open>tf.reduce_mean\<close> and \<open>tf.group\<close> after the loop.  No library call
  is made twice in a run, so none is retried.
\<close>

theorem no_error_handling:
  "(fst (input_fn L dataset epochs s) = Inl e \<longleftrightarrow>
      make_iterator L dataset 100 epochs = Inl e \<or>
      (\<exists>iterator. make_iterator L dataset 100 epochs = Inr iterator \<and>
         get_next L iterator = Inl e)) \<and>
   (fst (mean_auc L labels predictions weights s) = Inl e \<longleftrightarrow>
      (\<exists>i<n_tasks s. (\<forall>j<i. \<exists>r. task_auc L labels predictions weights j = Inr r) \<and>
         task_auc L labels predictions weights i = Inl e) \<or>
      (\<exists>rs. length rs = n_tasks s \<and>
         (\<forall>i<n_tasks s. task_auc L labels predictions weights i = Inr (rs ! i)) \<and>
         finish L rs = Inl e)) \<and>
   (task_auc L labels predictions weights k = Inl e \<longleftrightarrow>
      getcol L labels k = Inl e \<or>
      (\<exists>l. getcol L labels k = Inr l \<and>
         (getcol L predictions k = Inl e \<or>
          (\<exists>p. getcol L predictions k = Inr p \<and>
             (getcol L weights k = Inl e \<or>
              (\<exists>w. getcol L weights k = Inr w \<and> metrics_auc L l p w = Inl e)))))) \<and>
   (finish L pairs = Inl e \<longleftrightarrow>
      tf_stack L (map fst pairs) = Inl e \<or>
      (\<exists>stacked. tf_stack L (map fst pairs) = Inr stacked \<and>
         (reduce_mean L stacked = Inl e \<or>
          (\<exists>m. reduce_mean L stacked = Inr m \<and> tf_group L (map snd pairs) = Inl e)))) \<and>
   distinct (new_calls s (snd (input_fn L dataset epochs s))) \<and>
   distinct (new_calls s (snd (mean_auc L labels predictions weights s)))"
proof (intro conjI)
  show "fst (input_fn L dataset epochs s) = Inl e \<longleftrightarrow>
      make_iterator L dataset 100 epochs = Inl e \<or>
      (\<exists>iterator. make_iterator L dataset 100 epochs = Inr iterator \<and>
         get_next L iterator = Inl e)"
    by (auto simp: input_fn_run split: sum.splits prod.splits)
  show "fst (mean_auc L labels predictions weights s) = Inl e \<longleftrightarrow>
      (\<exists>i<n_tasks s. (\<forall>j<i. \<exists>r. task_auc L labels predictions weights j = Inr r) \<and>
         task_auc L labels predictions weights i = Inl e) \<or>
      (\<exists>rs. length rs = n_tasks s \<and>
         (\<forall>i<n_tasks s. task_auc L labels predictions weights i = Inr (rs ! i)) \<and>
         finish L rs = Inl e)"
    by (simp only: mean_auc_run fst_conv mean_auc_result_Inl)
  show "task_auc L labels predictions weights k = Inl e \<longleftrightarrow>
      getcol L labels k = Inl e \<or>
      (\<exists>l. getcol L labels k = Inr l \<and>
         (getcol L predictions k = Inl e \<or>
          (\<exists>p. getcol L predictions k = Inr p \<and>
             (getcol L weights k = Inl e \<or>
              (\<exists>w. getcol L weights k = Inr w \<and> metrics_auc L l p w = Inl e)))))"
    by (rule task_auc_Inl)
  show "finish L pairs = Inl e \<longleftrightarrow>
      tf_stack L (map fst pairs) = Inl e \<or>
      (\<exists>stacked. tf_stack L (map fst pairs) = Inr stacked \<and>
         (reduce_mean L stacked = Inl e \<or>
          (\<exists>m. reduce_mean L stacked = Inr m \<and> tf_group L (map snd pairs) = Inl e)))"
    by (rule finish_Inl)
  show "distinct (new_calls s (snd (input_fn L dataset epochs s)))"
    using new_calls_input_fn [of s L dataset epochs]
    by (rule distinct_prefix) (simp add: input_fn_ops_def)
  show "distinct (new_calls s (snd (mean_auc L labels predictions weights s)))"
    unfolding new_calls_mean_auc
    by (rule distinct_prefix [OF mean_auc_calls_prefix distinct_mean_auc_ops])
qed

theorem no_error_handling_witness:
  "getcol stub_libs (Mat [[1, 0]]) 1 = Inl ''IndexError'' \<and>
   task_auc stub_libs (Mat [[1, 0]]) (Mat [[1, 0], [0, 1]]) (Mat [[1, 1], [1, 2]]) 1 = Inl ''IndexError'' \<and>
   fst (mean_auc stub_libs (Mat [[1, 0]]) (Mat [[1, 0], [0, 1]]) (Mat [[1, 1], [1, 2]]) (stub_state 2))
     = Inl ''IndexError''"
proof -
  let ?f = "task_auc stub_libs (Mat [[1, 0]]) (Mat [[1, 0], [0, 1]]) (Mat [[1, 1], [1, 2]])"
  have "\<exists>i<n_tasks (stub_state 2). (\<forall>j<i. \<exists>r. ?f j = Inr r) \<and> ?f i = Inl ''IndexError''"
    by (rule exI [of _ "Suc 0"]) (simp add: stub_task_auc_short stub_state_def)
  moreover have "getcol stub_libs (Mat [[1, 0]]) 1 = Inl ''IndexError''"
    by (simp add: stub_libs_def stub_getcol_def)
  ultimately show ?thesis
    using no_error_handling [of stub_libs stub_data 3 "stub_state 2" "''IndexError''"
        "Mat [[1, 0]]" "Mat [[1, 0], [0, 1]]" "Mat [[1, 1], [1, 2]]" 1 "[]"]
    by simp
qed

text \<open>
  Claim C5.  The state of the two functions is local.  A call of \<open>input_fn\<close> or of
  \<open>mean_auc\<close> leaves \<open>n_tasks\<close>, every other global variable, the output and the
  libraries' objects as they were, and only adds its library calls to the log.
  \<open>input_fn\<close> leaves the store of list objects as it was; \<open>mean_auc\<close> leaves every
  list object that existed before the call unchanged and creates two new ones, its local
  lists.  What either returns does not depend on the state it is called in, but for
  \<open>mean_auc\<close> on the value of \<open>n_tasks\<close>.
\<close>

theorem adapters_frame:
  "n_tasks (snd (input_fn L dataset epochs s)) = n_tasks s \<and>
   store (snd (input_fn L dataset epochs s)) = store s \<and>
   stdout (snd (input_fn L dataset epochs s)) = stdout s \<and>
   world (snd (input_fn L dataset epochs s)) = world s \<and>
   pystate.more (snd (input_fn L dataset epochs s)) = pystate.more s \<and>
   prefix (calls s) (calls (snd (input_fn L dataset epochs s))) \<and>
   n_tasks (snd (mean_auc L labels predictions weights s)) = n_tasks s \<and>
   stdout (snd (mean_auc L labels predictions weights s)) = stdout s \<and>
   world (snd (mean_auc L labels predictions weights s)) = world s \<and>
   pystate.more (snd (mean_auc L labels predictions weights s)) = pystate.more s \<and>
   prefix (calls s) (calls (snd (mean_auc L labels predictions weights s))) \<and>
   take (length (store s)) (store (snd (mean_auc L labels predictions weights s))) = store s \<and>
   length (store (snd (mean_auc L labels predictions weights s))) = length (store s) + 2 \<and>
   fst (input_fn L dataset epochs t) = fst (input_fn L dataset epochs s) \<and>
   (n_tasks t = n_tasks s \<longrightarrow>
      fst (mean_auc L labels predictions weights t) = fst (mean_auc L labels predictions weights s))"
proof -
  have i: "n_tasks (snd (input_fn L dataset epochs s)) = n_tasks s"
    "store (snd (input_fn L dataset epochs s)) = store s"
    "stdout (snd (input_fn L dataset epochs s)) = stdout s"
    "world (snd (input_fn L dataset epochs s)) = world s"
    "pystate.more (snd (input_fn L dataset epochs s)) = pystate.more s"
    "prefix (calls s) (calls (snd (input_fn L dataset epochs s)))"
    "fst (input_fn L dataset epochs t) = fst (input_fn L dataset epochs s)"
    by (simp_all add: input_fn_run split: sum.splits prod.splits)
  have m: "n_tasks (snd (mean_auc L labels predictions weights s)) = n_tasks s"
    "stdout (snd (mean_auc L labels predictions weights s)) = stdout s"
    "world (snd (mean_auc L labels predictions weights s)) = world s"
    "pystate.more (snd (mean_auc L labels predictions weights s)) = pystate.more s"
    "prefix (calls s) (calls (snd (mean_auc L labels predictions weights s)))"
    "n_tasks t = n_tasks s \<longrightarrow>
      fst (mean_auc L labels predictions weights t) = fst (mean_auc L labels predictions weights s)"
    by (simp_all add: mean_auc_run)
  note st = mean_auc_store [where s = s and L = L and labels = labels
      and predictions = predictions and weights = weights]
  from i m st show ?thesis by blast
qed

theorem adapters_frame_witness:
  "n_tasks ((stub_state 2)\<lparr>store := [[Num 7]], stdout := [Num 1]\<rparr>) = n_tasks (stub_state 2) \<and>
   fst (mean_auc stub_libs (Mat [[1, 0], [0, 1]]) (Mat [[1, 0], [0, 1]]) (Mat [[1, 1], [1, 2]])
         ((stub_state 2)\<lparr>store := [[Num 7]], stdout := [Num 1]\<rparr>))
     = Inr (Num (3 / 2), Group [Update [1, 1], Update [1, 2]]) \<and>
   take 1 (store (snd (mean_auc stub_libs (Mat [[1, 0], [0, 1]]) (Mat [[1, 0], [0, 1]]) (Mat [[1, 1], [1, 2]])
         ((stub_state 2)\<lparr>store := [[Num 7]], stdout := [Num 1]\<rparr>)))) = [[Num 7]] \<and>
   stdout (snd (mean_auc stub_libs (Mat [[1, 0], [0, 1]]) (Mat [[1, 0], [0, 1]]) (Mat [[1, 1], [1, 2]])
         ((stub_state 2)\<lparr>store := [[Num 7]], stdout := [Num 1]\<rparr>))) = [Num 1]"
  using adapters_frame [where L = stub_libs and dataset = stub_data and epochs = 3
      and s = "(stub_state 2)\<lparr>store := [[Num 7]], stdout := [Num 1]\<rparr>" and t = "stub_state 2"
      and labels = "Mat [[1, 0], [0, 1]]" and predictions = "Mat [[1, 0], [0, 1]]"
      and weights = "Mat [[1, 1], [1, 2]]"]
    stub_mean_auc
  by (simp add: stub_state_def)

text \<open>
  Claim C6.  Neither function branches on its data.  The library calls a run of
  \<open>input_fn\<close> makes are an initial part of the fixed sequence \<open>input_fn_ops\<close>, and
  those a run of \<open>mean_auc\<close> makes are an initial part of \<open>mean_auc_ops n_tasks\<close>,
  which the value of \<open>n_tasks\<close> alone determines; a run that returns has made the whole
  sequence.  So any two runs that return, on whatever inputs and libraries, make the same
  sequence of calls (for \<open>mean_auc\<close>, under the same \<open>n_tasks\<close>), and the two local
  lists of \<open>mean_auc\<close> then hold \<open>n_tasks\<close> entries each.  What the functions return
  has one structure for all inputs: \<open>input_fn\<close> returns the mapping of \<open>'x'\<close> and
  \<open>'weights'\<close> to the first and third component of \<open>get_next()\<close>, with the second
  component; \<open>mean_auc\<close> returns the pair of the values built along \<open>metric_graph\<close>
  and \<open>update_graph\<close>, two graphs that depend on \<open>n_tasks\<close> and on nothing else.
\<close>

theorem no_data_dependent_branching:
  "prefix (new_calls s (snd (input_fn L dataset epochs s))) input_fn_ops \<and>
   prefix (new_calls s (snd (mean_auc L labels predictions weights s))) (mean_auc_ops (n_tasks s)) \<and>
   ((\<exists>r. fst (input_fn L dataset epochs s) = Inr r) \<and>
    (\<exists>r. fst (input_fn L' dataset' epochs' t) = Inr r) \<longrightarrow>
      new_calls s (snd (input_fn L dataset epochs s)) = input_fn_ops \<and>
      new_calls t (snd (input_fn L' dataset' epochs' t)) = input_fn_ops) \<and>
   ((\<exists>r. fst (mean_auc L labels predictions weights s) = Inr r) \<and>
    (\<exists>r. fst (mean_auc L' labels' predictions' weights' t) = Inr r) \<and>
    n_tasks t = n_tasks s \<longrightarrow>
      new_calls s (snd (mean_auc L labels predictions weights s)) = mean_auc_ops (n_tasks s) \<and>
      new_calls t (snd (mean_auc L' labels' predictions' weights' t)) = mean_auc_ops (n_tasks s) \<and>
      length (store (snd (mean_auc L labels predictions weights s)) ! length (store s)) = n_tasks s \<and>
      length (store (snd (mean_auc L labels predictions weights s)) ! Suc (length (store s))) = n_tasks s) \<and>
   fst (input_fn L dataset epochs s) =
     (case make_iterator L dataset 100 epochs of Inl e \<Rightarrow> Inl e
      | Inr iterator \<Rightarrow>
          (case get_next L iterator of Inl e \<Rightarrow> Inl e
           | Inr (x, y, weights) \<Rightarrow> Inr ([''x'' \<mapsto> x, ''weights'' \<mapsto> weights], y))) \<and>
   fst (mean_auc L labels predictions weights s) =
     (case build L labels predictions weights (metric_graph (n_tasks s)) of Inl e \<Rightarrow> Inl e
      | Inr mean_metric \<Rightarrow>
          (case build L labels predictions weights (update_graph (n_tasks s)) of Inl e \<Rightarrow> Inl e
           | Inr update_all \<Rightarrow> Inr (mean_metric, update_all))) \<and>
   (fst (mean_auc L labels predictions weights s) = Inr (m, u) \<and>
    fst (mean_auc L' labels' predictions' weights' t) = Inr (m', u') \<and>
    n_tasks t = n_tasks s \<longrightarrow>
      build L labels predictions weights (metric_graph (n_tasks s)) = Inr m \<and>
      build L labels predictions weights (update_graph (n_tasks s)) = Inr u \<and>
      build L' labels' predictions' weights' (metric_graph (n_tasks s)) = Inr m' \<and>
      build L' labels' predictions' weights' (update_graph (n_tasks s)) = Inr u')"
proof -
  have calls: "prefix (new_calls s (snd (input_fn L dataset epochs s))) input_fn_ops"
    "prefix (new_calls s (snd (mean_auc L labels predictions weights s))) (mean_auc_ops (n_tasks s))"
    unfolding new_calls_mean_auc by (rule new_calls_input_fn, rule mean_auc_calls_prefix)
  have i: "new_calls s (snd (input_fn L dataset epochs s)) = input_fn_ops \<and>
      new_calls t (snd (input_fn L' dataset' epochs' t)) = input_fn_ops"
    if "(\<exists>r. fst (input_fn L dataset epochs s) = Inr r) \<and>
      (\<exists>r. fst (input_fn L' dataset' epochs' t) = Inr r)"
    using that by (auto simp: new_calls_input_fn_ok)
  have m: "new_calls s (snd (mean_auc L labels predictions weights s)) = mean_auc_ops (n_tasks s) \<and>
      new_calls t (snd (mean_auc L' labels' predictions' weights' t)) = mean_auc_ops (n_tasks s) \<and>
      length (store (snd (mean_auc L labels predictions weights s)) ! length (store s)) = n_tasks s \<and>
      length (store (snd (mean_auc L labels predictions weights s)) ! Suc (length (store s))) = n_tasks s"
    if "(\<exists>r. fst (mean_auc L labels predictions weights s) = Inr r) \<and>
      (\<exists>r. fst (mean_auc L' labels' predictions' weights' t) = Inr r) \<and> n_tasks t = n_tasks s"
    using that by (auto simp: new_calls_mean_auc_ok mean_auc_local_lists)
  have ri: "fst (input_fn L dataset epochs s) =
     (case make_iterator L dataset 100 epochs of Inl e \<Rightarrow> Inl e
      | Inr iterator \<Rightarrow>
          (case get_next L iterator of Inl e \<Rightarrow> Inl e
           | Inr (x, y, weights) \<Rightarrow> Inr ([''x'' \<mapsto> x, ''weights'' \<mapsto> weights], y)))"
    by (simp add: input_fn_run split: sum.splits prod.splits)
  note rm = mean_auc_builds [of L labels predictions weights s]
  have two: "build L labels predictions weights (metric_graph (n_tasks s)) = Inr m \<and>
      build L labels predictions weights (update_graph (n_tasks s)) = Inr u \<and>
      build L' labels' predictions' weights' (metric_graph (n_tasks s)) = Inr m' \<and>
      build L' labels' predictions' weights' (update_graph (n_tasks s)) = Inr u'"
    if "fst (mean_auc L labels predictions weights s) = Inr (m, u) \<and>
      fst (mean_auc L' labels' predictions' weights' t) = Inr (m', u') \<and> n_tasks t = n_tasks s"
  proof -
    from that have "(case build L labels predictions weights (metric_graph (n_tasks s)) of
          Inl e \<Rightarrow> Inl e
        | Inr mean_metric \<Rightarrow>
            (case build L labels predictions weights (update_graph (n_tasks s)) of Inl e \<Rightarrow> Inl e
             | Inr update_all \<Rightarrow> Inr (mean_metric, update_all))) = Inr (m, u)"
      by (simp add: mean_auc_builds)
    moreover from that
    have "(case build L' labels' predictions' weights' (metric_graph (n_tasks s)) of
          Inl e \<Rightarrow> Inl e
        | Inr mean_metric \<Rightarrow>
            (case build L' labels' predictions' weights' (update_graph (n_tasks s)) of Inl e \<Rightarrow> Inl e
             | Inr update_all \<Rightarrow> Inr (mean_metric, update_all))) = Inr (m', u')"
    proof -
      from that have eq: "n_tasks t = n_tasks s"
        and r: "fst (mean_auc L' labels' predictions' weights' t) = Inr (m', u')"
        by simp_all
      show ?thesis
        using mean_auc_builds [of L' labels' predictions' weights' t] r unfolding eq by simp
    qed
    ultimately show ?thesis by (auto split: sum.splits)
  qed
  from calls i m ri rm two show ?thesis by blast
qed

theorem no_data_dependent_branching_witness:
  "fst (mean_auc stub_libs (Mat [[1, 0], [0, 1]]) (Mat [[1, 0], [0, 1]]) (Mat [[1, 1], [1, 2]]) (stub_state 2))
     = Inr (Num (3 / 2), Group [Update [1, 1], Update [1, 2]]) \<and>
   fst (mean_auc stub_libs (Mat [[5], [7]]) (Mat [[2], [3]]) (Mat [[1], [0]]) (stub_state 2))
     = Inr (Num 5, Group [Update [1], Update [0]]) \<and>
   new_calls (stub_state 2)
      (snd (mean_auc stub_libs (Mat [[1, 0], [0, 1]]) (Mat [[1, 0], [0, 1]]) (Mat [[1, 1], [1, 2]]) (stub_state 2)))
     = new_calls (stub_state 2)
         (snd (mean_auc stub_libs (Mat [[5], [7]]) (Mat [[2], [3]]) (Mat [[1], [0]]) (stub_state 2))) \<and>
   build stub_libs (Mat [[1, 0], [0, 1]]) (Mat [[1, 0], [0, 1]]) (Mat [[1, 1], [1, 2]]) (metric_graph 2)
     = Inr (Num (3 / 2)) \<and>
   build stub_libs (Mat [[1, 0], [0, 1]]) (Mat [[1, 0], [0, 1]]) (Mat [[1, 1], [1, 2]]) (update_graph 2)
     = Inr (Group [Update [1, 1], Update [1, 2]]) \<and>
   build stub_libs (Mat [[5], [7]]) (Mat [[2], [3]]) (Mat [[1], [0]]) (metric_graph 2) = Inr (Num 5) \<and>
   build stub_libs (Mat [[5], [7]]) (Mat [[2], [3]]) (Mat [[1], [0]]) (update_graph 2)
     = Inr (Group [Update [1], Update [0]])"
proof -
  note T = no_data_dependent_branching [where L = stub_libs and L' = stub_libs and s = "stub_state 2"
        and t = "stub_state 2" and dataset = stub_data and dataset' = stub_data and epochs = 3 and epochs' = 3
        and labels = "Mat [[1, 0], [0, 1]]" and predictions = "Mat [[1, 0], [0, 1]]"
        and weights = "Mat [[1, 1], [1, 2]]"
        and labels' = "Mat [[5], [7]]" and predictions' = "Mat [[2], [3]]" and weights' = "Mat [[1], [0]]"
        and m = "Num (3 / 2)" and u = "Group [Update [1, 1], Update [1, 2]]"
        and m' = "Num 5" and u' = "Group [Update [1], Update [0]]"]
  have n: "n_tasks (stub_state 2) = 2" by (simp add: stub_state_def)
  note a = stub_mean_auc and b = stub_mean_auc_other
  from T [THEN conjunct2, THEN conjunct2, THEN conjunct2, THEN conjunct1] a b
  have "new_calls (stub_state 2)
      (snd (mean_auc stub_libs (Mat [[1, 0], [0, 1]]) (Mat [[1, 0], [0, 1]]) (Mat [[1, 1], [1, 2]]) (stub_state 2)))
     = new_calls (stub_state 2)
         (snd (mean_auc stub_libs (Mat [[5], [7]]) (Mat [[2], [3]]) (Mat [[1], [0]]) (stub_state 2)))"
    by simp
  moreover
  from T [THEN conjunct2, THEN conjunct2, THEN conjunct2, THEN conjunct2, THEN conjunct2, THEN conjunct2]
    a b
  have "build stub_libs (Mat [[1, 0], [0, 1]]) (Mat [[1, 0], [0, 1]]) (Mat [[1, 1], [1, 2]]) (metric_graph 2)
     = Inr (Num (3 / 2)) \<and>
   build stub_libs (Mat [[1, 0], [0, 1]]) (Mat [[1, 0], [0, 1]]) (Mat [[1, 1], [1, 2]]) (update_graph 2)
     = Inr (Group [Update [1, 1], Update [1, 2]]) \<and>
   build stub_libs (Mat [[5], [7]]) (Mat [[2], [3]]) (Mat [[1], [0]]) (metric_graph 2) = Inr (Num 5) \<and>
   build stub_libs (Mat [[5], [7]]) (Mat [[2], [3]]) (Mat [[1], [0]]) (update_graph 2)
     = Inr (Group [Update [1], Update [0]])"
    by (simp only: n simp_thms)
  ultimately show ?thesis using a b by (simp only: simp_thms)
qed

text \<open>
  Claim C9.  The loop of \<open>mean_auc\<close> is bounded by \<open>n_tasks\<close>, not by its arguments:
  every slice a run takes has a column index below \<open>n_tasks\<close>, whatever the tensors.
  Where slicing column \<open>i\<close> of a tensor succeeds exactly when \<open>i\<close> is below its number
  of columns: if each of the three tensors has at least \<open>n_tasks\<close> columns, every slice
  a run takes is within the columns of its tensor and succeeds; and \<open>mean_auc\<close> returns
  only if each of the three tensors has at least \<open>n_tasks\<close> columns.
\<close>

theorem slices_in_range:
  assumes "has_columns L ncols"
  shows "(\<forall>a i. Call_slice a i \<in> set (new_calls s (snd (mean_auc L labels predictions weights s)))
            \<longrightarrow> i < n_tasks s) \<and>
         (n_tasks s \<le> ncols labels \<and> n_tasks s \<le> ncols predictions \<and> n_tasks s \<le> ncols weights
            \<longrightarrow> (\<forall>a i. Call_slice a i \<in> set (new_calls s (snd (mean_auc L labels predictions weights s)))
                     \<longrightarrow> i < ncols (tensor_of a labels predictions weights) \<and>
                         (\<exists>c. getcol L (tensor_of a labels predictions weights) i = Inr c))) \<and>
         ((\<exists>r. fst (mean_auc L labels predictions weights s) = Inr r)
            \<longrightarrow> n_tasks s \<le> ncols labels \<and> n_tasks s \<le> ncols predictions \<and> n_tasks s \<le> ncols weights)"
proof (intro conjI allI impI)
  fix a i
  assume "Call_slice a i \<in> set (new_calls s (snd (mean_auc L labels predictions weights s)))"
  then show "i < n_tasks s" by (rule slice_in_new_calls)
next
  fix a i
  assume pre: "n_tasks s \<le> ncols labels \<and> n_tasks s \<le> ncols predictions \<and> n_tasks s \<le> ncols weights"
    and "Call_slice a i \<in> set (new_calls s (snd (mean_auc L labels predictions weights s)))"
  then have "i < n_tasks s" by (auto dest: slice_in_new_calls)
  with pre show "i < ncols (tensor_of a labels predictions weights)"
    by (cases a) (simp_all add: tensor_of_def)
  with assms show "\<exists>c. getcol L (tensor_of a labels predictions weights) i = Inr c"
    by (simp add: has_columns_def)
next
  assume ok: "\<exists>r. fst (mean_auc L labels predictions weights s) = Inr r"
  have "n \<le> ncols t" if "\<forall>i<n. \<exists>c. getcol L t i = Inr c" for n t
  proof (rule ccontr)
    assume "\<not> n \<le> ncols t"
    then have "ncols t < n" by simp
    with that have "\<exists>c. getcol L t (ncols t) = Inr c" by blast
    with assms show False by (simp add: has_columns_def)
  qed
  with ok mean_auc_Inr_slices [of L labels predictions weights s]
  show "n_tasks s \<le> ncols labels" "n_tasks s \<le> ncols predictions" "n_tasks s \<le> ncols weights"
    by blast+
qed

theorem slices_in_range_witness:
  "has_columns stub_libs stub_ncols \<and>
   n_tasks (stub_state 2) \<le> stub_ncols (Mat [[1, 0], [0, 1]]) \<and>
   n_tasks (stub_state 2) \<le> stub_ncols (Mat [[1, 1], [1, 2]]) \<and>
   Call_slice Weights 1 \<in> set (new_calls (stub_state 2)
      (snd (mean_auc stub_libs (Mat [[1, 0], [0, 1]]) (Mat [[1, 0], [0, 1]]) (Mat [[1, 1], [1, 2]]) (stub_state 2)))) \<and>
   (\<exists>c. getcol stub_libs (tensor_of Weights (Mat [[1, 0], [0, 1]]) (Mat [[1, 0], [0, 1]]) (Mat [[1, 1], [1, 2]])) 1 = Inr c)"
proof -
  have "new_calls (stub_state 2)
      (snd (mean_auc stub_libs (Mat [[1, 0], [0, 1]]) (Mat [[1, 0], [0, 1]]) (Mat [[1, 1], [1, 2]]) (stub_state 2)))
      = mean_auc_ops 2"
    using new_calls_mean_auc_ok [OF stub_mean_auc] by (simp add: stub_state_def)
  then have "Call_slice Weights 1 \<in> set (new_calls (stub_state 2)
      (snd (mean_auc stub_libs (Mat [[1, 0], [0, 1]]) (Mat [[1, 0], [0, 1]]) (Mat [[1, 1], [1, 2]]) (stub_state 2))))"
    by (simp add: mean_auc_ops_def upt_2 task_ops_def)
  moreover have "n_tasks (stub_state 2) \<le> stub_ncols (Mat [[1, 0], [0, 1]])"
    "n_tasks (stub_state 2) \<le> stub_ncols (Mat [[1, 1], [1, 2]])"
    by (simp_all add: stub_state_def stub_ncols_def)
  ultimately show ?thesis
    using slices_in_range [OF stub_has_columns, of "stub_state 2" "Mat [[1, 0], [0, 1]]"
        "Mat [[1, 0], [0, 1]]" "Mat [[1, 1], [1, 2]]"] stub_has_columns
    by blast
qed




text \<open>
  Claim C7.  The notebook runs as one fixed sequence of stages.  The library calls a run
  makes are an initial part of \<open>notebook_ops\<close>: load the dataset, read the number of
  features, build the model; fit, build the metric, evaluate, print; create the two
  columns, make the estimator; train, evaluate, print.  A run that returns has made all
  of them, each once and in this order; each call worked on the state of the libraries'
  objects the call before it left, so each evaluation follows its training; and what was
  printed is the result of the model's evaluation followed by the result of the
  estimator's evaluation.
\<close>

theorem notebook_linear:
  "prefix (calls s) (calls (snd (notebook L s))) \<and>
   prefix (map erase (new_calls s (snd (notebook L s)))) (notebook_ops () ()) \<and>
   (fst (notebook L s) = Inr () \<longrightarrow>
      map erase (new_calls s (snd (notebook L s))) = notebook_ops () () \<and>
      (\<exists>tasks train_dataset valid_dataset test_dataset transformers w1 n_features w2 model w3
          fitted w4 metric w5 scores w6 x_col weight_col estimator w7 trained w8 results w9.
         load_tox21 L (world s)
           = (Inr (tasks, (train_dataset, valid_dataset, test_dataset), transformers), w1) \<and>
         X_shape_1 L train_dataset w1 = (Inr n_features, w2) \<and>
         MultitaskClassifier L (length tasks) n_features [1000] (1/4) w2 = (Inr model, w3) \<and>
         model_fit L model train_dataset 100 w3 = (Inr fitted, w4) \<and>
         Metric L (roc_auc_score L) (np_mean L) w4 = (Inr metric, w5) \<and>
         model_evaluate L model test_dataset [metric] w5 = (Inr scores, w6) \<and>
         numeric_column L ''x'' [n_features] = Inr x_col \<and>
         numeric_column L ''weights'' [length tasks] = Inr weight_col \<and>
         make_estimator L model [x_col] weight_col [(''mean_auc'', Fn_mean_auc)] ''estimator'' w6
           = (Inr estimator, w7) \<and>
         estimator_train L estimator (Lambda_input_fn train_dataset 100) w7 = (Inr trained, w8) \<and>
         estimator_evaluate L estimator (Lambda_input_fn test_dataset 1) w8 = (Inr results, w9) \<and>
         snd (notebook L s)
           = s\<lparr>n_tasks := length tasks, calls := calls s @ notebook_ops x_col weight_col,
               stdout := stdout s @ [scores, results], world := w9\<rparr>))"
proof -
  from makes_notebook [of L] obtain cs where cs: "calls (snd (notebook L s)) = calls s @ cs"
      "prefix (map erase cs) (notebook_ops () ())"
      "(\<exists>x. fst (notebook L s) = Inr x) \<longrightarrow> map erase cs = notebook_ops () ()"
    unfolding makes_def by blast
  then have n: "new_calls s (snd (notebook L s)) = cs" by (simp add: new_calls_def)
  have "(\<exists>tasks train_dataset valid_dataset test_dataset transformers w1 n_features w2 model w3
          fitted w4 metric w5 scores w6 x_col weight_col estimator w7 trained w8 results w9.
         load_tox21 L (world s)
           = (Inr (tasks, (train_dataset, valid_dataset, test_dataset), transformers), w1) \<and>
         X_shape_1 L train_dataset w1 = (Inr n_features, w2) \<and>
         MultitaskClassifier L (length tasks) n_features [1000] (1/4) w2 = (Inr model, w3) \<and>
         model_fit L model train_dataset 100 w3 = (Inr fitted, w4) \<and>
         Metric L (roc_auc_score L) (np_mean L) w4 = (Inr metric, w5) \<and>
         model_evaluate L model test_dataset [metric] w5 = (Inr scores, w6) \<and>
         numeric_column L ''x'' [n_features] = Inr x_col \<and>
         numeric_column L ''weights'' [length tasks] = Inr weight_col \<and>
         make_estimator L model [x_col] weight_col [(''mean_auc'', Fn_mean_auc)] ''estimator'' w6
           = (Inr estimator, w7) \<and>
         estimator_train L estimator (Lambda_input_fn train_dataset 100) w7 = (Inr trained, w8) \<and>
         estimator_evaluate L estimator (Lambda_input_fn test_dataset 1) w8 = (Inr results, w9) \<and>
         snd (notebook L s)
           = s\<lparr>n_tasks := length tasks, calls := calls s @ notebook_ops x_col weight_col,
               stdout := stdout s @ [scores, results], world := w9\<rparr>)"
    if "fst (notebook L s) = Inr ()"
    using that unfolding notebook_Inr_fst notebook_Inr .
  with cs n show ?thesis by auto
qed

theorem notebook_linear_witness:
  "fst (notebook stub_libs (stub_state 0)) = Inr () \<and>
   map erase (new_calls (stub_state 0) (snd (notebook stub_libs (stub_state 0)))) = notebook_ops () () \<and>
   stdout (snd (notebook stub_libs (stub_state 0))) = [Num 100, Num 200]"
  using notebook_linear [of "stub_state 0" stub_libs] stub_notebook
  by simp




end
